theory Spec2Isabelle
  imports Complex_Main
begin

section \<open>The restaurant server: data model\<close>

text \<open>
  The module \<^verbatim>\<open>server.py\<close> keeps two process-wide dictionaries, \<^verbatim>\<open>ORDERS\<close> and
  \<^verbatim>\<open>ACTIVE_SESSIONS\<close>, and reads a constant list \<^verbatim>\<open>MENU_ITEMS\<close> loaded from a JSON
  file that is not part of the sources; the menu is therefore a parameter of every
  operation that consults it.

  Python lists and dictionaries are objects handled by reference. A cart is a list
  object whose elements are dictionary objects (the cart lines); \<^verbatim>\<open>add_to_cart\<close>
  mutates both in place, and \<^verbatim>\<open>checkout\<close> stores the very list object of the cart in
  the order. The model therefore keeps an explicit store: list objects and cart-line
  objects live at addresses, sessions and orders hold the address of their list.
  A fresh object is allocated at \<open>next_addr\<close>.

  Quantities are Python integers. Prices are JSON numbers, which Python reads as
  \<^verbatim>\<open>int\<close> or as a binary64 \<^verbatim>\<open>float\<close>; the model takes a price as the rational number
  it denotes and computes totals exactly. Two things the source does with a
  \<^verbatim>\<open>float\<close> price are therefore outside the model: the rounding of each product and
  partial sum (\<^verbatim>\<open>0.1 + 0.2\<close> is reported as \<^verbatim>\<open>0.30000000000000004\<close>), and the
  \<^verbatim>\<open>OverflowError\<close> that \<^verbatim>\<open>price * quantity\<close> raises when the quantity is too large
  to convert to a \<^verbatim>\<open>float\<close> (from \<open>2 ^ 1024\<close> on), after the cart has been written.
  No theorem of this theory rests on a law of arithmetic: a total appears as the value of
  \<open>cart_total\<close> on a given list of lines (0 on the empty list), and the totals evaluated on
  the concrete runs are sums of products that binary64 arithmetic computes without
  rounding.

  The values of \<^verbatim>\<open>uuid4()\<close> and \<^verbatim>\<open>datetime.now()\<close> are inputs of the operation that
  reads them; a timestamp is the clock reading (the ISO string is an order-preserving
  rendering of it).
\<close>

type_synonym addr = nat
type_synonym timestamp = nat

datatype json = JNull | JBool bool | JNum rat | JStr string
  | JArr "json list" | JObj "(string \<times> json) list"

record menu_item =
  mi_id :: string
  mi_name :: string
  mi_category :: string
  mi_price :: rat
  mi_is_vegetarian :: bool
  mi_is_vegan :: bool
  mi_is_gluten_free :: bool
  mi_allergens :: "string list"

record cart_line =
  item_id :: string
  name :: string
  price :: rat
  quantity :: int

record session =
  s_cart :: addr
  s_created_at :: timestamp
  s_last_active :: timestamp

record payment =
  p_method :: json
  p_status :: string
  p_transaction_id :: string

record order =
  o_order_id :: string
  o_items :: addr
  o_total :: rat
  o_status :: string
  o_created_at :: timestamp
  o_customer_info :: "string \<rightharpoonup> json"
  o_payment_info :: payment

record state =
  ORDERS :: "string \<rightharpoonup> order"
  ACTIVE_SESSIONS :: "string \<rightharpoonup> session"
  list_heap :: "addr \<Rightarrow> addr list"
  line_heap :: "addr \<Rightarrow> cart_line"
  next_addr :: addr

text \<open>Error payloads \<^verbatim>\<open>{"error": ...}\<close>, one constructor per message of the source.\<close>

datatype error =
    InvalidSessionID
  | ItemNotFound string
  | EmptyCart
  | OrderNotFound string

text \<open>What a response shows of a cart: the lines the list object holds when it is sent.\<close>

record cart_result =
  r_cart :: "cart_line list"
  r_total :: rat

record order_view =
  v_order_id :: string
  v_items :: "cart_line list"
  v_total :: rat
  v_status :: string
  v_created_at :: timestamp
  v_customer_info :: "string \<rightharpoonup> json"
  v_payment_info :: payment

record checkout_result =
  c_order :: order_view
  c_success :: bool
  c_message :: string

record create_result =
  n_session_id :: string
  n_cart :: "cart_line list"

section \<open>Helpers of the embedding\<close>

text \<open>
  \<^verbatim>\<open>str.lower()\<close> and \<^verbatim>\<open>str.upper()\<close> on the ASCII letters; any other character is
  left as it is. Python also maps the letters beyond ASCII, which a \<open>string\<close> of
  8-bit characters does not represent; this bears on the matching of categories and
  allergens with such letters only. No string with a letter beyond ASCII lower-cases to
  \<^verbatim>\<open>vegetarian\<close>, \<^verbatim>\<open>vegan\<close> or \<^verbatim>\<open>gluten_free\<close>, and the hexadecimal digits that
  \<^verbatim>\<open>upper()\<close> is applied to are ASCII.
\<close>

definition lower_char :: "char \<Rightarrow> char" where
  "lower_char c =
     (let n = (of_char c :: nat) in if 65 \<le> n \<and> n \<le> 90 then char_of (n + 32) else c)"

definition upper_char :: "char \<Rightarrow> char" where
  "upper_char c =
     (let n = (of_char c :: nat) in if 97 \<le> n \<and> n \<le> 122 then char_of (n - 32) else c)"

definition lower :: "string \<Rightarrow> string" where
  "lower s = map lower_char s"

definition upper :: "string \<Rightarrow> string" where
  "upper s = map upper_char s"

text \<open>The lines of the list object at an address.\<close>

definition read_cart :: "state \<Rightarrow> addr \<Rightarrow> cart_line list" where
  "read_cart st a = map (line_heap st) (list_heap st a)"

text \<open>
  \<^verbatim>\<open>sum(i["price"] * i["quantity"] for i in cart)\<close>: Python's \<^verbatim>\<open>sum\<close> starts at 0
  and adds from the left. The arithmetic is exact here; see the remark on prices above.
\<close>

definition cart_total :: "cart_line list \<Rightarrow> rat" where
  "cart_total ls = foldl (\<lambda>acc i. acc + price i * of_int (quantity i)) 0 ls"

definition order_view :: "state \<Rightarrow> order \<Rightarrow> order_view" where
  "order_view st ord =
     \<lparr>v_order_id = o_order_id ord, v_items = read_cart st (o_items ord),
      v_total = o_total ord, v_status = o_status ord, v_created_at = o_created_at ord,
      v_customer_info = o_customer_info ord, v_payment_info = o_payment_info ord\<rparr>"

definition init_state :: state where
  "init_state =
     \<lparr>ORDERS = Map.empty, ACTIVE_SESSIONS = Map.empty,
      list_heap = (\<lambda>_. []),
      line_heap = (\<lambda>_. \<lparr>item_id = [], name = [], price = 0, quantity = 0\<rparr>),
      next_addr = 0\<rparr>"

section \<open>Menu queries\<close>

text \<open>
  \<^verbatim>\<open>find_items_by_criteria\<close>. An argument that is \<^verbatim>\<open>None\<close>, an empty string or an
  empty list is falsy and skips its filter; \<^verbatim>\<open>max_price\<close> is tested with
  \<^verbatim>\<open>is not None\<close>.
\<close>

definition dietary_filter :: "string \<Rightarrow> menu_item list \<Rightarrow> menu_item list" where
  "dietary_filter dietary_preference filtered =
     (let pref = lower dietary_preference in
      if pref = ''vegetarian'' then filter mi_is_vegetarian filtered
      else if pref = ''vegan'' then filter mi_is_vegan filtered
      else if pref = ''gluten_free'' then filter mi_is_gluten_free filtered
      else filtered)"

fun exclude_loop :: "string list \<Rightarrow> menu_item list \<Rightarrow> menu_item list" where
  "exclude_loop [] filtered = filtered"
| "exclude_loop (allergen # rest) filtered =
     exclude_loop rest
       (filter (\<lambda>i. lower allergen \<notin> set (map lower (mi_allergens i))) filtered)"

definition find_items_by_criteria ::
  "menu_item list \<Rightarrow> string option \<Rightarrow> rat option \<Rightarrow> string list option \<Rightarrow> string option
     \<Rightarrow> menu_item list" where
  "find_items_by_criteria MENU_ITEMS dietary_preference max_price exclude_allergens category =
     (let filtered = MENU_ITEMS;
          filtered = (case dietary_preference of
                        None \<Rightarrow> filtered
                      | Some d \<Rightarrow> if d = [] then filtered else dietary_filter d filtered);
          filtered = (case max_price of
                        None \<Rightarrow> filtered
                      | Some m \<Rightarrow> filter (\<lambda>i. mi_price i \<le> m) filtered);
          filtered = (case exclude_allergens of
                        None \<Rightarrow> filtered
                      | Some al \<Rightarrow> exclude_loop al filtered);
          filtered = (case category of
                        None \<Rightarrow> filtered
                      | Some c \<Rightarrow> if c = [] then filtered
                                  else filter (\<lambda>i. lower (mi_category i) = lower c) filtered)
      in filtered)"

section \<open>Sessions and carts\<close>

text \<open>
  \<^verbatim>\<open>create_cart\<close>: the session identifier is \<^verbatim>\<open>str(uuid4())\<close>, the cart a fresh
  empty list object.
\<close>

definition create_cart :: "state \<Rightarrow> string \<Rightarrow> timestamp \<Rightarrow> create_result \<times> state" where
  "create_cart st session_id now =
     (let new = next_addr st;
          st1 = st\<lparr>list_heap := (list_heap st)(new := []),
                   next_addr := Suc new,
                   ACTIVE_SESSIONS := (ACTIVE_SESSIONS st)(session_id \<mapsto>
                      \<lparr>s_cart = new, s_created_at = now, s_last_active = now\<rparr>)\<rparr>
      in (\<lparr>n_session_id = session_id, n_cart = []\<rparr>, st1))"

text \<open>
  \<^verbatim>\<open>add_to_cart\<close>. The \<^verbatim>\<open>for ... break ... else\<close> loop updates the first line of the
  cart with the given \<^verbatim>\<open>item_id\<close> in place, or appends a new line object to the list
  object when no line has it.
\<close>

definition add_to_cart ::
  "menu_item list \<Rightarrow> state \<Rightarrow> string \<Rightarrow> string \<Rightarrow> int \<Rightarrow> timestamp
     \<Rightarrow> (error + cart_result) \<times> state" where
  "add_to_cart MENU_ITEMS st session_id iid qty now =
     (case ACTIVE_SESSIONS st session_id of
        None \<Rightarrow> (Inl InvalidSessionID, st)
      | Some session \<Rightarrow>
          (case find (\<lambda>i. mi_id i = iid) MENU_ITEMS of
             None \<Rightarrow> (Inl (ItemNotFound iid), st)
           | Some item \<Rightarrow>
               let cart = s_cart session;
                   st1 = (case find (\<lambda>a. item_id (line_heap st a) = iid) (list_heap st cart) of
                            Some a \<Rightarrow>
                              st\<lparr>line_heap := (line_heap st)(a := (line_heap st a)
                                    \<lparr>quantity := quantity (line_heap st a) + qty\<rparr>)\<rparr>
                          | None \<Rightarrow>
                              st\<lparr>line_heap := (line_heap st)(next_addr st :=
                                    \<lparr>item_id = iid, name = mi_name item,
                                     price = mi_price item, quantity = qty\<rparr>),
                                 list_heap := (list_heap st)(cart :=
                                    list_heap st cart @ [next_addr st]),
                                 next_addr := Suc (next_addr st)\<rparr>);
                   st2 = st1\<lparr>ACTIVE_SESSIONS := (ACTIVE_SESSIONS st1)(session_id \<mapsto>
                            session\<lparr>s_last_active := now\<rparr>)\<rparr>
               in (Inr \<lparr>r_cart = read_cart st2 cart,
                        r_total = cart_total (read_cart st2 cart)\<rparr>, st2)))"

text \<open>
  \<^verbatim>\<open>remove_from_cart\<close>: the list comprehension builds a new list object, which the
  session is rebound to; the line objects that stay are shared with the old list.
\<close>

definition remove_from_cart ::
  "state \<Rightarrow> string \<Rightarrow> string \<Rightarrow> timestamp \<Rightarrow> (error + cart_result) \<times> state" where
  "remove_from_cart st session_id iid now =
     (case ACTIVE_SESSIONS st session_id of
        None \<Rightarrow> (Inl InvalidSessionID, st)
      | Some session \<Rightarrow>
          let cart = s_cart session;
              new = next_addr st;
              st1 = st\<lparr>list_heap := (list_heap st)(new :=
                          filter (\<lambda>a. item_id (line_heap st a) \<noteq> iid) (list_heap st cart)),
                       next_addr := Suc new,
                       ACTIVE_SESSIONS := (ACTIVE_SESSIONS st)(session_id \<mapsto>
                          session\<lparr>s_cart := new, s_last_active := now\<rparr>)\<rparr>
          in (Inr \<lparr>r_cart = read_cart st1 new,
                   r_total = cart_total (read_cart st1 new)\<rparr>, st1))"

definition get_cart :: "state \<Rightarrow> string \<Rightarrow> error + cart_result" where
  "get_cart st session_id =
     (case ACTIVE_SESSIONS st session_id of
        None \<Rightarrow> Inl InvalidSessionID
      | Some session \<Rightarrow>
          Inr \<lparr>r_cart = read_cart st (s_cart session),
               r_total = cart_total (read_cart st (s_cart session))\<rparr>)"

section \<open>Checkout and orders\<close>

text \<open>
  \<^verbatim>\<open>checkout\<close>. \<open>u1\<close> and \<open>u2\<close> are the \<^verbatim>\<open>hex\<close> strings of the two \<^verbatim>\<open>uuid4()\<close>
  calls, \<open>order_time\<close> and \<open>now\<close> the two clock readings; none of them is read when
  the operation returns an error. The order keeps the list object of the cart
  (\<^verbatim>\<open>"items": cart\<close>) and the session is rebound to a fresh empty list.
  \<^verbatim>\<open>customer_info or {}\<close> is the given dictionary, or an empty one when it is
  \<^verbatim>\<open>None\<close> (or empty).
\<close>

definition checkout ::
  "state \<Rightarrow> string \<Rightarrow> (string \<rightharpoonup> json) option \<Rightarrow> (string \<rightharpoonup> json) option
     \<Rightarrow> string \<Rightarrow> timestamp \<Rightarrow> string \<Rightarrow> timestamp
     \<Rightarrow> (error + checkout_result) \<times> state" where
  "checkout st session_id customer_info payment_info u1 order_time u2 now =
     (case ACTIVE_SESSIONS st session_id of
        None \<Rightarrow> (Inl InvalidSessionID, st)
      | Some session \<Rightarrow>
          let cart = s_cart session in
          if list_heap st cart = [] then (Inl EmptyCart, st)
          else
            let order_id = ''ORD-'' @ upper (take 8 u1);
                ord = \<lparr>o_order_id = order_id,
                       o_items = cart,
                       o_total = cart_total (read_cart st cart),
                       o_status = ''confirmed'',
                       o_created_at = order_time,
                       o_customer_info = (case customer_info of None \<Rightarrow> Map.empty | Some c \<Rightarrow> c),
                       o_payment_info =
                         \<lparr>p_method = (case (case payment_info of None \<Rightarrow> Map.empty | Some p \<Rightarrow> p)
                                              ''method'' of
                                        None \<Rightarrow> JStr ''credit_card'' | Some m \<Rightarrow> m),
                          p_status = ''approved'',
                          p_transaction_id = ''TXN-'' @ upper (take 10 u2)\<rparr>\<rparr>;
                new = next_addr st;
                st1 = st\<lparr>ORDERS := (ORDERS st)(order_id \<mapsto> ord),
                         list_heap := (list_heap st)(new := []),
                         next_addr := Suc new,
                         ACTIVE_SESSIONS := (ACTIVE_SESSIONS st)(session_id \<mapsto>
                            session\<lparr>s_cart := new, s_last_active := now\<rparr>)\<rparr>
            in (Inr \<lparr>c_order = order_view st1 ord, c_success = True,
                     c_message = ''Order placed successfully''\<rparr>, st1))"

definition get_order_status :: "state \<Rightarrow> string \<Rightarrow> error + order_view" where
  "get_order_status st order_id =
     (case ORDERS st order_id of
        None \<Rightarrow> Inl (OrderNotFound order_id)
      | Some ord \<Rightarrow> Inr (order_view st ord))"

section \<open>Runs of the server\<close>

text \<open>
  A call of a tool together with the values the environment hands to it. The server
  starts in \<open>init_state\<close> (both dictionaries empty) and every state it can be in is the
  result of a finite sequence of calls. The menu queries and \<^verbatim>\<open>list_orders\<close> write
  nothing and are not listed; \<^verbatim>\<open>get_cart\<close> and \<^verbatim>\<open>get_order_status\<close> stand for the
  tools that only read.
\<close>

datatype op =
    CreateCart string timestamp
  | AddToCart string string int timestamp
  | RemoveFromCart string string timestamp
  | GetCart string
  | Checkout string "(string \<rightharpoonup> json) option" "(string \<rightharpoonup> json) option"
      string timestamp string timestamp
  | GetOrderStatus string

fun step :: "menu_item list \<Rightarrow> state \<Rightarrow> op \<Rightarrow> state" where
  "step M st (CreateCart sid now) = snd (create_cart st sid now)"
| "step M st (AddToCart sid iid qty now) = snd (add_to_cart M st sid iid qty now)"
| "step M st (RemoveFromCart sid iid now) = snd (remove_from_cart st sid iid now)"
| "step M st (GetCart sid) = st"
| "step M st (Checkout sid cinfo pinfo u1 t1 u2 t2) = snd (checkout st sid cinfo pinfo u1 t1 u2 t2)"
| "step M st (GetOrderStatus oid) = st"

definition run :: "menu_item list \<Rightarrow> state \<Rightarrow> op list \<Rightarrow> state" where
  "run M st ops = foldl (step M) st ops"

text \<open>The order identifier a call generates, if it is a checkout.\<close>

fun generated_order_id :: "op \<Rightarrow> string option" where
  "generated_order_id (Checkout sid cinfo pinfo u1 t1 u2 t2) = Some (''ORD-'' @ upper (take 8 u1))"
| "generated_order_id _ = None"

text \<open>
  The clock readings handed to a call, in the order the source reads them (a call that is
  rejected returns before it reads any).
\<close>

fun clock_readings :: "op \<Rightarrow> timestamp list" where
  "clock_readings (CreateCart sid now) = [now]"
| "clock_readings (AddToCart sid iid qty now) = [now]"
| "clock_readings (RemoveFromCart sid iid now) = [now]"
| "clock_readings (GetCart sid) = []"
| "clock_readings (Checkout sid cinfo pinfo u1 t1 u2 t2) = [t1, t2]"
| "clock_readings (GetOrderStatus oid) = []"

section \<open>Well-formed states\<close>

text \<open>
  What holds of the store in every state the server reaches: every object a session or an
  order refers to has been allocated; the lines of a session's cart have pairwise
  different \<open>item_id\<close>s; two sessions share neither their list object nor a line
  object; a session shares neither with an order.
\<close>

definition alloc_ok :: "state \<Rightarrow> bool" where
  "alloc_ok st \<longleftrightarrow>
     (\<forall>sid s. ACTIVE_SESSIONS st sid = Some s \<longrightarrow>
        s_cart s < next_addr st \<and> (\<forall>a \<in> set (list_heap st (s_cart s)). a < next_addr st)) \<and>
     (\<forall>oid ord. ORDERS st oid = Some ord \<longrightarrow>
        o_items ord < next_addr st \<and> (\<forall>a \<in> set (list_heap st (o_items ord)). a < next_addr st))"

definition unique_lines :: "state \<Rightarrow> bool" where
  "unique_lines st \<longleftrightarrow>
     (\<forall>sid s. ACTIVE_SESSIONS st sid = Some s \<longrightarrow>
        distinct (map (\<lambda>a. item_id (line_heap st a)) (list_heap st (s_cart s))))"

definition sessions_apart :: "state \<Rightarrow> bool" where
  "sessions_apart st \<longleftrightarrow>
     (\<forall>sid sid' s s'. sid \<noteq> sid' \<longrightarrow> ACTIVE_SESSIONS st sid = Some s \<longrightarrow>
        ACTIVE_SESSIONS st sid' = Some s' \<longrightarrow>
        s_cart s \<noteq> s_cart s' \<and>
        set (list_heap st (s_cart s)) \<inter> set (list_heap st (s_cart s')) = {})"

definition orders_apart :: "state \<Rightarrow> bool" where
  "orders_apart st \<longleftrightarrow>
     (\<forall>sid s oid ord. ACTIVE_SESSIONS st sid = Some s \<longrightarrow> ORDERS st oid = Some ord \<longrightarrow>
        s_cart s \<noteq> o_items ord \<and>
        set (list_heap st (s_cart s)) \<inter> set (list_heap st (o_items ord)) = {})"

definition state_ok :: "state \<Rightarrow> bool" where
  "state_ok st \<longleftrightarrow> alloc_ok st \<and> unique_lines st \<and> sessions_apart st \<and> orders_apart st"

text \<open>The order dictionary that \<^verbatim>\<open>checkout\<close> builds, from the state before the call.\<close>

definition new_order ::
  "state \<Rightarrow> session \<Rightarrow> (string \<rightharpoonup> json) option \<Rightarrow> (string \<rightharpoonup> json) option
     \<Rightarrow> string \<Rightarrow> timestamp \<Rightarrow> string \<Rightarrow> order" where
  "new_order st s cinfo pinfo u1 t1 u2 =
     \<lparr>o_order_id = ''ORD-'' @ upper (take 8 u1),
      o_items = s_cart s,
      o_total = cart_total (read_cart st (s_cart s)),
      o_status = ''confirmed'',
      o_created_at = t1,
      o_customer_info = (case cinfo of None \<Rightarrow> Map.empty | Some c \<Rightarrow> c),
      o_payment_info =
        \<lparr>p_method = (case (case pinfo of None \<Rightarrow> Map.empty | Some p \<Rightarrow> p) ''method'' of
                       None \<Rightarrow> JStr ''credit_card'' | Some m \<Rightarrow> m),
         p_status = ''approved'',
         p_transaction_id = ''TXN-'' @ upper (take 10 u2)\<rparr>\<rparr>"

section \<open>A concrete menu and run\<close>

text \<open>
  A two-item menu and the state after \<^verbatim>\<open>create_cart()\<close> and
  \<^verbatim>\<open>add_to_cart(s1, "burger-01", 2)\<close>, on which the theorems below are instantiated.
\<close>

definition example_burger :: menu_item where
  "example_burger =
     \<lparr>mi_id = ''burger-01'', mi_name = ''Burger'', mi_category = ''Mains'', mi_price = 17 / 2,
      mi_is_vegetarian = False, mi_is_vegan = False, mi_is_gluten_free = False,
      mi_allergens = [''Gluten'']\<rparr>"

definition example_salad :: menu_item where
  "example_salad =
     \<lparr>mi_id = ''salad-01'', mi_name = ''Salad'', mi_category = ''Starters'', mi_price = 6,
      mi_is_vegetarian = True, mi_is_vegan = True, mi_is_gluten_free = True,
      mi_allergens = []\<rparr>"

definition example_menu :: "menu_item list" where
  "example_menu = [example_burger, example_salad]"

definition example_state :: state where
  "example_state =
     run example_menu init_state [CreateCart ''s1'' 1, AddToCart ''s1'' ''burger-01'' 2 2]"

section \<open>The reachable states are well-formed\<close>

lemma state_ok_init: "state_ok init_state"
  by (simp add: state_ok_def alloc_ok_def unique_lines_def sessions_apart_def orders_apart_def init_state_def)

lemma alloc_sessD:
  "alloc_ok st \<Longrightarrow> ACTIVE_SESSIONS st sid = Some s \<Longrightarrow> s_cart s < next_addr st"
  "alloc_ok st \<Longrightarrow> ACTIVE_SESSIONS st sid = Some s \<Longrightarrow> a \<in> set (list_heap st (s_cart s)) \<Longrightarrow> a < next_addr st"
  by (auto simp: alloc_ok_def)

lemma alloc_ordD:
  "alloc_ok st \<Longrightarrow> ORDERS st oid = Some ord \<Longrightarrow> o_items ord < next_addr st"
  "alloc_ok st \<Longrightarrow> ORDERS st oid = Some ord \<Longrightarrow> a \<in> set (list_heap st (o_items ord)) \<Longrightarrow> a < next_addr st"
  by (auto simp: alloc_ok_def)

lemma unique_linesD:
  "unique_lines st \<Longrightarrow> ACTIVE_SESSIONS st sid = Some s \<Longrightarrow>
     distinct (map (\<lambda>a. item_id (line_heap st a)) (list_heap st (s_cart s)))"
  by (auto simp: unique_lines_def)

lemma sessions_apartD:
  "sessions_apart st \<Longrightarrow> ACTIVE_SESSIONS st sid = Some s \<Longrightarrow> ACTIVE_SESSIONS st sid' = Some s' \<Longrightarrow> sid \<noteq> sid' \<Longrightarrow> s_cart s \<noteq> s_cart s'"
  "sessions_apart st \<Longrightarrow> ACTIVE_SESSIONS st sid = Some s \<Longrightarrow> ACTIVE_SESSIONS st sid' = Some s' \<Longrightarrow> sid \<noteq> sid' \<Longrightarrow> a \<in> set (list_heap st (s_cart s)) \<Longrightarrow> a \<notin> set (list_heap st (s_cart s'))"
  unfolding sessions_apart_def by blast+

lemma orders_apartD:
  "orders_apart st \<Longrightarrow> ACTIVE_SESSIONS st sid = Some s \<Longrightarrow> ORDERS st oid = Some ord \<Longrightarrow> s_cart s \<noteq> o_items ord"
  "orders_apart st \<Longrightarrow> ACTIVE_SESSIONS st sid = Some s \<Longrightarrow> ORDERS st oid = Some ord \<Longrightarrow> a \<in> set (list_heap st (s_cart s)) \<Longrightarrow> a \<notin> set (list_heap st (o_items ord))"
  unfolding orders_apart_def by blast+

lemma create_cart_state:
  "snd (create_cart st sid now) =
     st\<lparr>list_heap := (list_heap st)(next_addr st := []),
        next_addr := Suc (next_addr st),
        ACTIVE_SESSIONS := (ACTIVE_SESSIONS st)(sid \<mapsto>
           \<lparr>s_cart = next_addr st, s_created_at = now, s_last_active = now\<rparr>)\<rparr>"
  by (simp add: create_cart_def Let_def)

lemma create_alloc: "alloc_ok st \<Longrightarrow> alloc_ok (snd (create_cart st sid now))"
  unfolding create_cart_state
  by (subst alloc_ok_def) (auto simp: less_Suc_eq dest: alloc_sessD alloc_ordD)

lemma create_unique: "alloc_ok st \<Longrightarrow> unique_lines st \<Longrightarrow> unique_lines (snd (create_cart st sid now))"
  unfolding create_cart_state
  by (subst unique_lines_def) (auto dest: alloc_sessD unique_linesD)

lemma create_sess: "alloc_ok st \<Longrightarrow> sessions_apart st \<Longrightarrow> sessions_apart (snd (create_cart st sid now))"
  unfolding create_cart_state
  by (subst sessions_apart_def) (auto dest: alloc_sessD sessions_apartD)

lemma create_ord: "alloc_ok st \<Longrightarrow> orders_apart st \<Longrightarrow> orders_apart (snd (create_cart st sid now))"
  unfolding create_cart_state
  by (subst orders_apart_def) (auto dest: alloc_sessD alloc_ordD orders_apartD)

lemma add_to_cart_existing:
  assumes "ACTIVE_SESSIONS st sid = Some s" "find (\<lambda>i. mi_id i = iid) M = Some item"
    "find (\<lambda>a. item_id (line_heap st a) = iid) (list_heap st (s_cart s)) = Some a"
  shows "snd (add_to_cart M st sid iid qty now) =
     st\<lparr>line_heap := (line_heap st)(a := (line_heap st a)\<lparr>quantity := quantity (line_heap st a) + qty\<rparr>),
        ACTIVE_SESSIONS := (ACTIVE_SESSIONS st)(sid \<mapsto> s\<lparr>s_last_active := now\<rparr>)\<rparr>"
  using assms by (simp add: add_to_cart_def Let_def)

lemma add_to_cart_new:
  assumes "ACTIVE_SESSIONS st sid = Some s" "find (\<lambda>i. mi_id i = iid) M = Some item"
    "find (\<lambda>a. item_id (line_heap st a) = iid) (list_heap st (s_cart s)) = None"
  shows "snd (add_to_cart M st sid iid qty now) =
     st\<lparr>line_heap := (line_heap st)(next_addr st :=
           \<lparr>item_id = iid, name = mi_name item, price = mi_price item, quantity = qty\<rparr>),
        list_heap := (list_heap st)(s_cart s := list_heap st (s_cart s) @ [next_addr st]),
        next_addr := Suc (next_addr st),
        ACTIVE_SESSIONS := (ACTIVE_SESSIONS st)(sid \<mapsto> s\<lparr>s_last_active := now\<rparr>)\<rparr>"
  using assms by (simp add: add_to_cart_def Let_def)

lemma add_to_cart_fail:
  "ACTIVE_SESSIONS st sid = None \<Longrightarrow> add_to_cart M st sid iid qty now = (Inl InvalidSessionID, st)"
  "ACTIVE_SESSIONS st sid = Some s \<Longrightarrow> find (\<lambda>i. mi_id i = iid) M = None \<Longrightarrow>
     add_to_cart M st sid iid qty now = (Inl (ItemNotFound iid), st)"
  by (simp_all add: add_to_cart_def)

lemma item_id_bump [simp]:
  "item_id (if x = a then (lh a)\<lparr>quantity := q\<rparr> else lh x) = item_id (lh x)"
  by simp

lemma map_fresh_line:
  "n \<notin> set xs \<Longrightarrow> map (\<lambda>a. f ((lh(n := l)) a)) xs = map (\<lambda>a. f (lh a)) xs"
  by (rule map_cong [OF refl]) auto

lemma add_existing_ok:
  assumes ok: "state_ok st" and s: "ACTIVE_SESSIONS st sid = Some s"
    and f: "find (\<lambda>a. item_id (line_heap st a) = iid) (list_heap st (s_cart s)) = Some a"
  shows "state_ok
     (st\<lparr>line_heap := (line_heap st)(a := (line_heap st a)\<lparr>quantity := quantity (line_heap st a) + qty\<rparr>),
        ACTIVE_SESSIONS := (ACTIVE_SESSIONS st)(sid \<mapsto> s\<lparr>s_last_active := now\<rparr>)\<rparr>)"
    (is "state_ok ?st'")
proof -
  from ok have a: "alloc_ok st" and u: "unique_lines st" and sa: "sessions_apart st"
    and oa: "orders_apart st" by (simp_all add: state_ok_def)
  have 1: "alloc_ok ?st'"
    using a s by (subst alloc_ok_def) (auto dest: alloc_sessD alloc_ordD)
  have 2: "unique_lines ?st'"
    using u s by (subst unique_lines_def) (auto dest: unique_linesD)
  have 3: "sessions_apart ?st'"
    using sa s by (subst sessions_apart_def) (auto dest: sessions_apartD)
  have 4: "orders_apart ?st'"
    using oa s by (subst orders_apart_def) (auto dest: orders_apartD)
  from 1 2 3 4 show ?thesis by (simp add: state_ok_def)
qed


lemma fresh_sess:
  "alloc_ok st \<Longrightarrow> ACTIVE_SESSIONS st sid = Some s \<Longrightarrow> next_addr st \<notin> set (list_heap st (s_cart s))"
  "alloc_ok st \<Longrightarrow> ACTIVE_SESSIONS st sid = Some s \<Longrightarrow> next_addr st \<noteq> s_cart s"
  "alloc_ok st \<Longrightarrow> ACTIVE_SESSIONS st sid = Some s \<Longrightarrow> s_cart s \<noteq> next_addr st"
  by (auto dest: alloc_sessD)

lemma fresh_ord:
  "alloc_ok st \<Longrightarrow> ORDERS st oid = Some ord \<Longrightarrow> next_addr st \<notin> set (list_heap st (o_items ord))"
  "alloc_ok st \<Longrightarrow> ORDERS st oid = Some ord \<Longrightarrow> next_addr st \<noteq> o_items ord"
  "alloc_ok st \<Longrightarrow> ORDERS st oid = Some ord \<Longrightarrow> o_items ord \<noteq> next_addr st"
  by (auto dest: alloc_ordD)

lemma add_new_ok:
  assumes ok: "state_ok st" and s: "ACTIVE_SESSIONS st sid = Some s"
    and f: "find (\<lambda>a. item_id (line_heap st a) = iid) (list_heap st (s_cart s)) = None"
  shows "state_ok
     (st\<lparr>line_heap := (line_heap st)(next_addr st := \<lparr>item_id = iid, name = nm, price = pr, quantity = qty\<rparr>),
        list_heap := (list_heap st)(s_cart s := list_heap st (s_cart s) @ [next_addr st]),
        next_addr := Suc (next_addr st),
        ACTIVE_SESSIONS := (ACTIVE_SESSIONS st)(sid \<mapsto> s\<lparr>s_last_active := now\<rparr>)\<rparr>)"
    (is "state_ok ?st'")
proof -
  from ok have a: "alloc_ok st" and u: "unique_lines st" and sa: "sessions_apart st"
    and oa: "orders_apart st" by (simp_all add: state_ok_def)
  from f have nf: "\<forall>x \<in> set (list_heap st (s_cart s)). item_id (line_heap st x) \<noteq> iid"
    by (simp add: find_None_iff)
  have 1: "alloc_ok ?st'"
    using a s by (subst alloc_ok_def) (auto simp: less_Suc_eq dest: alloc_sessD alloc_ordD orders_apartD [OF oa])
  have 2: "unique_lines ?st'"
    unfolding unique_lines_def
  proof (intro allI impI)
    fix sid' s' assume s': "ACTIVE_SESSIONS ?st' sid' = Some s'"
    show "distinct (map (\<lambda>a. item_id (line_heap ?st' a)) (list_heap ?st' (s_cart s')))"
    proof (cases "sid' = sid")
      case True
      with s' have c: "s_cart s' = s_cart s" by auto
      show ?thesis using c nf unique_linesD [OF u s] fresh_sess(1) [OF a s]
        by (auto simp: map_fresh_line fun_upd_same simp del: fun_upd_apply)
    next
      case False
      with s' have s0: "ACTIVE_SESSIONS st sid' = Some s'" by simp
      have ne: "s_cart s' \<noteq> s_cart s" using sessions_apartD(1) [OF sa s0 s False] .
      show ?thesis using ne unique_linesD [OF u s0] fresh_sess(1) [OF a s0]
        by (simp add: map_fresh_line fun_upd_other del: fun_upd_apply)
    qed
  qed
  have 3: "sessions_apart ?st'"
    using s by (subst sessions_apart_def)
      (auto dest: sessions_apartD [OF sa] fresh_sess [OF a])
  have 4: "orders_apart ?st'"
    using s by (subst orders_apart_def)
      (auto dest: orders_apartD [OF oa] fresh_ord [OF a])
  from 1 2 3 4 show ?thesis by (simp add: state_ok_def)
qed

lemma add_to_cart_ok: "state_ok st \<Longrightarrow> state_ok (snd (add_to_cart M st sid iid qty now))"
proof -
  assume ok: "state_ok st"
  show ?thesis
  proof (cases "ACTIVE_SESSIONS st sid")
    case None
    then show ?thesis using ok by (simp add: add_to_cart_fail)
  next
    case (Some s)
    show ?thesis
    proof (cases "find (\<lambda>i. mi_id i = iid) M")
      case None
      then show ?thesis using ok Some by (simp add: add_to_cart_fail)
    next
      case (Some item)
      note item = this
      show ?thesis
      proof (cases "find (\<lambda>a. item_id (line_heap st a) = iid) (list_heap st (s_cart s))")
        case None
        show ?thesis
          unfolding add_to_cart_new [OF \<open>ACTIVE_SESSIONS st sid = Some s\<close> item None]
          by (rule add_new_ok [OF ok \<open>ACTIVE_SESSIONS st sid = Some s\<close> None])
      next
        case (Some a)
        show ?thesis
          unfolding add_to_cart_existing [OF \<open>ACTIVE_SESSIONS st sid = Some s\<close> item Some]
          by (rule add_existing_ok [OF ok \<open>ACTIVE_SESSIONS st sid = Some s\<close> Some])
      qed
    qed
  qed
qed

lemma remove_from_cart_state:
  assumes "ACTIVE_SESSIONS st sid = Some s"
  shows "snd (remove_from_cart st sid iid now) =
     st\<lparr>list_heap := (list_heap st)(next_addr st :=
           filter (\<lambda>a. item_id (line_heap st a) \<noteq> iid) (list_heap st (s_cart s))),
        next_addr := Suc (next_addr st),
        ACTIVE_SESSIONS := (ACTIVE_SESSIONS st)(sid \<mapsto>
           s\<lparr>s_cart := next_addr st, s_last_active := now\<rparr>)\<rparr>"
  using assms by (simp add: remove_from_cart_def Let_def)

lemma remove_from_cart_fail:
  "ACTIVE_SESSIONS st sid = None \<Longrightarrow> remove_from_cart st sid iid now = (Inl InvalidSessionID, st)"
  by (simp add: remove_from_cart_def)

lemma remove_from_cart_ok: "state_ok st \<Longrightarrow> state_ok (snd (remove_from_cart st sid iid now))"
proof -
  assume ok: "state_ok st"
  then have a: "alloc_ok st" and u: "unique_lines st" and sa: "sessions_apart st"
    and oa: "orders_apart st" by (simp_all add: state_ok_def)
  show ?thesis
  proof (cases "ACTIVE_SESSIONS st sid")
    case None
    then show ?thesis using ok by (simp add: remove_from_cart_fail)
  next
    case (Some s)
    let ?st' = "snd (remove_from_cart st sid iid now)"
    note st' = remove_from_cart_state [OF Some]
    have 1: "alloc_ok ?st'"
      unfolding st' using Some
      by (subst alloc_ok_def) (auto simp: less_Suc_eq dest: alloc_sessD [OF a] alloc_ordD [OF a])
    have 2: "unique_lines ?st'"
      unfolding st' using Some
      by (subst unique_lines_def)
         (auto simp: distinct_map_filter dest: unique_linesD [OF u] fresh_sess [OF a])
    have 3: "sessions_apart ?st'"
      unfolding st' using Some
      by (subst sessions_apart_def)
         (auto dest: sessions_apartD [OF sa] fresh_sess [OF a])
    have 4: "orders_apart ?st'"
      unfolding st' using Some
      by (subst orders_apart_def)
         (auto dest: orders_apartD [OF oa] fresh_ord [OF a] fresh_sess [OF a])
    from 1 2 3 4 show ?thesis by (simp add: state_ok_def)
  qed
qed

lemma checkout_fail:
  "ACTIVE_SESSIONS st sid = None \<Longrightarrow>
     checkout st sid cinfo pinfo u1 t1 u2 t2 = (Inl InvalidSessionID, st)"
  "ACTIVE_SESSIONS st sid = Some s \<Longrightarrow> list_heap st (s_cart s) = [] \<Longrightarrow>
     checkout st sid cinfo pinfo u1 t1 u2 t2 = (Inl EmptyCart, st)"
  by (simp_all add: checkout_def)

lemma checkout_state:
  assumes "ACTIVE_SESSIONS st sid = Some s" "list_heap st (s_cart s) \<noteq> []"
  shows "snd (checkout st sid cinfo pinfo u1 t1 u2 t2) =
     st\<lparr>ORDERS := (ORDERS st)(''ORD-'' @ upper (take 8 u1) \<mapsto> new_order st s cinfo pinfo u1 t1 u2),
        list_heap := (list_heap st)(next_addr st := []),
        next_addr := Suc (next_addr st),
        ACTIVE_SESSIONS := (ACTIVE_SESSIONS st)(sid \<mapsto>
           s\<lparr>s_cart := next_addr st, s_last_active := t2\<rparr>)\<rparr>"
  using assms by (simp add: checkout_def Let_def new_order_def)

lemma new_order_items [simp]: "o_items (new_order st s cinfo pinfo u1 t1 u2) = s_cart s"
  by (simp add: new_order_def)

lemma checkout_ok:
  "state_ok st \<Longrightarrow> state_ok (snd (checkout st sid cinfo pinfo u1 t1 u2 t2))"
proof -
  assume ok: "state_ok st"
  then have a: "alloc_ok st" and u: "unique_lines st" and sa: "sessions_apart st"
    and oa: "orders_apart st" by (simp_all add: state_ok_def)
  show ?thesis
  proof (cases "ACTIVE_SESSIONS st sid")
    case None
    then show ?thesis using ok by (simp add: checkout_fail)
  next
    case (Some s)
    show ?thesis
    proof (cases "list_heap st (s_cart s) = []")
      case True
      then show ?thesis using ok Some by (simp add: checkout_fail)
    next
      case False
      let ?st' = "snd (checkout st sid cinfo pinfo u1 t1 u2 t2)"
      note st' = checkout_state [OF Some False]
      have 1: "alloc_ok ?st'"
        unfolding st' using Some
        by (subst alloc_ok_def) (auto simp: less_Suc_eq dest: alloc_sessD [OF a] alloc_ordD [OF a])
      have 2: "unique_lines ?st'"
        unfolding st' using Some
        by (subst unique_lines_def) (auto dest: unique_linesD [OF u] fresh_sess [OF a])
      have 3: "sessions_apart ?st'"
        unfolding st' using Some
        by (subst sessions_apart_def) (auto dest: sessions_apartD [OF sa] fresh_sess [OF a])
      have 4: "orders_apart ?st'"
        unfolding st' using Some
        by (subst orders_apart_def)
           (auto dest: orders_apartD [OF oa] sessions_apartD [OF sa] fresh_ord [OF a] fresh_sess [OF a])
      from 1 2 3 4 show ?thesis by (simp add: state_ok_def)
    qed
  qed
qed

lemma create_cart_ok: "state_ok st \<Longrightarrow> state_ok (snd (create_cart st sid now))"
  by (simp add: state_ok_def create_alloc create_unique create_sess create_ord)

lemma step_ok: "state_ok st \<Longrightarrow> state_ok (step M st x)"
  by (cases x) (simp_all add: create_cart_ok add_to_cart_ok remove_from_cart_ok checkout_ok)

lemma run_ok: "state_ok st \<Longrightarrow> state_ok (run M st ops)"
  unfolding run_def by (induction ops arbitrary: st) (simp_all add: step_ok)

lemma reachable_ok: "state_ok (run M init_state ops)"
  by (rule run_ok [OF state_ok_init])

section \<open>The concrete run, evaluated\<close>

lemma example_state_eq:
  "example_state =
     \<lparr>ORDERS = Map.empty,
      ACTIVE_SESSIONS = [''s1'' \<mapsto> \<lparr>s_cart = 0, s_created_at = 1, s_last_active = 2\<rparr>],
      list_heap = (\<lambda>_. [])(0 := [1]),
      line_heap = (\<lambda>_. \<lparr>item_id = [], name = [], price = 0, quantity = 0\<rparr>)
        (1 := \<lparr>item_id = ''burger-01'', name = ''Burger'', price = 17 / 2, quantity = 2\<rparr>),
      next_addr = 2\<rparr>"
  by (simp add: example_state_def run_def create_cart_def add_to_cart_def init_state_def
      example_menu_def example_burger_def example_salad_def Let_def)

lemma example_session:
  "ACTIVE_SESSIONS example_state ''s1'' =
     Some \<lparr>s_cart = 0, s_created_at = 1, s_last_active = 2\<rparr>"
  by (simp add: example_state_eq)

lemma example_cart:
  "read_cart example_state 0 =
     [\<lparr>item_id = ''burger-01'', name = ''Burger'', price = 17 / 2, quantity = 2\<rparr>]"
  by (simp add: example_state_eq read_cart_def)

lemma lower_Keto: "lower ''Keto'' = ''keto''"
  by code_simp

lemma lower_VEGAN: "lower ''VEGAN'' = ''vegan''"
  by code_simp

section \<open>Checkout of an empty cart\<close>

text \<open>
  C2. For every session whose cart has zero lines, \<^verbatim>\<open>checkout\<close> returns an error
  result and hands back the state it was given: no order is created (the order map is
  unchanged) and the session, with its cart, is unchanged.
\<close>

theorem checkout_empty_cart_rejected:
  assumes "ACTIVE_SESSIONS st sid = Some s" and "read_cart st (s_cart s) = []"
  shows "checkout st sid cinfo pinfo u1 t1 u2 t2 = (Inl EmptyCart, st)"
  using assms by (simp add: checkout_def read_cart_def)

text \<open>The theorem at a session that has just been created.\<close>

theorem checkout_empty_cart_rejected_witness:
  "ACTIVE_SESSIONS (snd (create_cart init_state ''s1'' 1)) ''s1''
     = Some \<lparr>s_cart = 0, s_created_at = 1, s_last_active = 1\<rparr> \<and>
   read_cart (snd (create_cart init_state ''s1'' 1)) 0 = [] \<and>
   checkout (snd (create_cart init_state ''s1'' 1)) ''s1'' None None
       ''0123456789abcdef'' 2 ''fedcba9876543210'' 3
     = (Inl EmptyCart, snd (create_cart init_state ''s1'' 1))"
proof -
  have a: "ACTIVE_SESSIONS (snd (create_cart init_state ''s1'' 1)) ''s1''
     = Some \<lparr>s_cart = 0, s_created_at = 1, s_last_active = 1\<rparr>"
    by (simp add: create_cart_def init_state_def)
  have b: "read_cart (snd (create_cart init_state ''s1'' 1))
      (s_cart \<lparr>s_cart = 0, s_created_at = 1, s_last_active = 1\<rparr>) = []"
    by (simp add: create_cart_def init_state_def read_cart_def)
  from checkout_empty_cart_rejected [OF a b] a b show ?thesis by simp
qed

section \<open>Unrecognised dietary preferences\<close>

text \<open>
  C9, as amended. The source compares the lower-cased preference with the three
  recognised values. For every \<^verbatim>\<open>dietary_preference\<close> whose lower-cased form is none
  of \<^verbatim>\<open>vegetarian\<close>, \<^verbatim>\<open>vegan\<close>, \<^verbatim>\<open>gluten_free\<close>, \<^verbatim>\<open>find_items_by_criteria\<close>
  applies no dietary filter: it returns what the same query without a preference
  returns, and no error.
\<close>

theorem unknown_dietary_preference_ignored:
  assumes "lower d \<notin> {''vegetarian'', ''vegan'', ''gluten_free''}"
  shows "find_items_by_criteria M (Some d) max_price exclude_allergens category
       = find_items_by_criteria M None max_price exclude_allergens category"
proof -
  from assms have "dietary_filter d M = M"
    by (simp add: dietary_filter_def Let_def)
  then show ?thesis
    by (simp add: find_items_by_criteria_def Let_def split: option.splits)
qed

theorem unknown_dietary_preference_ignored_witness:
  "lower ''Keto'' \<notin> {''vegetarian'', ''vegan'', ''gluten_free''} \<and>
   find_items_by_criteria example_menu (Some ''Keto'') None None None
     = find_items_by_criteria example_menu None None None None"
proof -
  have h: "lower ''Keto'' \<notin> {''vegetarian'', ''vegan'', ''gluten_free''}"
    by (simp add: lower_Keto)
  from unknown_dietary_preference_ignored [OF h] h show ?thesis by blast
qed

text \<open>
  C9 as stated fails: \<^verbatim>\<open>"VEGAN"\<close> is not one of the three recognised strings, yet the
  vegan filter is applied to it, because the comparison is made after \<^verbatim>\<open>lower()\<close>.
\<close>

theorem dietary_preference_case_counterexample:
  "''VEGAN'' \<notin> {''vegetarian'', ''vegan'', ''gluten_free''} \<and>
   find_items_by_criteria example_menu (Some ''VEGAN'') None None None
     \<noteq> find_items_by_criteria example_menu None None None None"
  by (simp add: find_items_by_criteria_def dietary_filter_def lower_VEGAN example_menu_def example_burger_def example_salad_def)

section \<open>Defaults of a checkout\<close>

text \<open>
  C10. For every successful checkout, the order that is created and stored is the one
  returned; when \<^verbatim>\<open>customer_info\<close> is omitted the order records the empty map as
  customer information, and when \<^verbatim>\<open>payment_info\<close> is omitted or has no
  \<^verbatim>\<open>method\<close> key the payment method of the order is \<^verbatim>\<open>"credit_card"\<close>.
\<close>

theorem checkout_defaults:
  assumes "checkout st sid cinfo pinfo u1 t1 u2 t2 = (Inr r, st')"
  shows "\<exists>ord. ORDERS st' (v_order_id (c_order r)) = Some ord \<and>
           order_view st' ord = c_order r \<and>
           (cinfo = None \<longrightarrow> o_customer_info ord = Map.empty) \<and>
           (pinfo = None \<or> (\<exists>p. pinfo = Some p \<and> p ''method'' = None) \<longrightarrow>
              p_method (o_payment_info ord) = JStr ''credit_card'')"
  using assms
  by (auto simp: checkout_def Let_def order_view_def split: option.splits if_splits)

theorem checkout_defaults_witness:
  "\<exists>r st'. checkout example_state ''s1'' None None
               ''0123456789abcdef'' 3 ''fedcba9876543210'' 4 = (Inr r, st') \<and>
     (\<exists>ord. ORDERS st' (v_order_id (c_order r)) = Some ord \<and>
        o_customer_info ord = Map.empty \<and>
        p_method (o_payment_info ord) = JStr ''credit_card'')"
proof -
  obtain r st' where h: "checkout example_state ''s1'' None None
      ''0123456789abcdef'' 3 ''fedcba9876543210'' 4 = (Inr r, st')"
    by (simp add: checkout_def example_session example_state_eq Let_def)
  from checkout_defaults [OF h] h show ?thesis by auto
qed

section \<open>Adding to a cart: errors\<close>

lemma add_to_cart_Inr:
  assumes "ACTIVE_SESSIONS st sid = Some s" "find (\<lambda>i. mi_id i = iid) M = Some item"
  shows "add_to_cart M st sid iid qty now =
     (Inr \<lparr>r_cart = read_cart (snd (add_to_cart M st sid iid qty now)) (s_cart s),
           r_total = cart_total (read_cart (snd (add_to_cart M st sid iid qty now)) (s_cart s))\<rparr>,
      snd (add_to_cart M st sid iid qty now))"
  using assms by (simp add: add_to_cart_def Let_def)

lemma add_to_cart_session:
  assumes "ACTIVE_SESSIONS st sid = Some s" "find (\<lambda>i. mi_id i = iid) M = Some item"
  shows "ACTIVE_SESSIONS (snd (add_to_cart M st sid iid qty now)) =
     (ACTIVE_SESSIONS st)(sid \<mapsto> s\<lparr>s_last_active := now\<rparr>)"
  using assms by (simp add: add_to_cart_def Let_def split: option.splits)

text \<open>
  C4, as amended. For an existing session, every quantity and every \<open>item_id\<close> that is the
  identifier of no menu item, \<^verbatim>\<open>add_to_cart\<close> fails with the item-not-found error and
  returns the state it was given, so the session's cart is unchanged. (The source has no
  failure for \<open>quantity \<le> 0\<close>: that clause of the claim is dropped.)
\<close>

theorem add_to_cart_unknown_item:
  assumes "ACTIVE_SESSIONS st sid = Some s"
    and "iid \<notin> mi_id ` set M"
  shows "add_to_cart M st sid iid qty now = (Inl (ItemNotFound iid), st)"
proof -
  from assms(2) have "find (\<lambda>i. mi_id i = iid) M = None"
    by (auto simp: find_None_iff)
  then show ?thesis
    using assms(1) by (simp add: add_to_cart_fail)
qed

theorem add_to_cart_unknown_item_witness:
  "ACTIVE_SESSIONS example_state ''s1'' = Some \<lparr>s_cart = 0, s_created_at = 1, s_last_active = 2\<rparr> \<and>
   ''nonexistent'' \<notin> mi_id ` set example_menu \<and>
   add_to_cart example_menu example_state ''s1'' ''nonexistent'' 1 3
     = (Inl (ItemNotFound ''nonexistent''), example_state) \<and>
   add_to_cart example_menu example_state ''s1'' ''nonexistent'' (- 1) 3
     = (Inl (ItemNotFound ''nonexistent''), example_state)"
proof -
  have a: "''nonexistent'' \<notin> mi_id ` set example_menu"
    by (simp add: example_menu_def example_burger_def example_salad_def)
  from add_to_cart_unknown_item [OF example_session a, of 1 3]
    add_to_cart_unknown_item [OF example_session a, of "- 1" 3]
    a example_session
  show ?thesis by blast
qed

text \<open>
  C4 as stated fails: with quantity \<open>-2\<close> the call does not fail; it appends a line of
  quantity \<open>-2\<close> to the empty cart and reports the total \<open>-17\<close>.
\<close>

theorem add_to_cart_nonpositive_quantity_counterexample:
  "(- 2 :: int) \<le> 0 \<and>
   fst (add_to_cart example_menu (snd (create_cart init_state ''s1'' 1)) ''s1'' ''burger-01'' (- 2) 2)
     = Inr \<lparr>r_cart = [\<lparr>item_id = ''burger-01'', name = ''Burger'', price = 17 / 2, quantity = - 2\<rparr>],
            r_total = - 17\<rparr> \<and>
   read_cart (snd (create_cart init_state ''s1'' 1)) 0 = [] \<and>
   read_cart (snd (add_to_cart example_menu (snd (create_cart init_state ''s1'' 1))
       ''s1'' ''burger-01'' (- 2) 2)) 0
     = [\<lparr>item_id = ''burger-01'', name = ''Burger'', price = 17 / 2, quantity = - 2\<rparr>]"
  by (simp add: add_to_cart_def create_cart_def init_state_def example_menu_def example_burger_def example_salad_def Let_def
      read_cart_def cart_total_def)

section \<open>What a cart operation reports\<close>

text \<open>
  The cart and total that \<^verbatim>\<open>add_to_cart\<close> and \<^verbatim>\<open>remove_from_cart\<close> return are
  those of the session right after the call.
\<close>

lemma add_to_cart_get_cart:
  assumes "add_to_cart M st sid iid qty now = (Inr r, st')"
  shows "get_cart st' sid = Inr r"
  using assms
  by (auto simp: add_to_cart_def get_cart_def Let_def split: option.splits)

lemma remove_from_cart_get_cart:
  assumes "remove_from_cart st sid iid now = (Inr r, st')"
  shows "get_cart st' sid = Inr r"
  using assms
  by (auto simp: remove_from_cart_def get_cart_def Let_def split: option.splits)

lemma example_add:
  "add_to_cart example_menu example_state ''s1'' ''salad-01'' 3 5 =
     (Inr \<lparr>r_cart = [\<lparr>item_id = ''burger-01'', name = ''Burger'', price = 17 / 2, quantity = 2\<rparr>,
                     \<lparr>item_id = ''salad-01'', name = ''Salad'', price = 6, quantity = 3\<rparr>],
           r_total = 35\<rparr>,
      snd (add_to_cart example_menu example_state ''s1'' ''salad-01'' 3 5))"
  by (simp add: add_to_cart_def example_state_eq example_menu_def example_burger_def example_salad_def Let_def read_cart_def
      cart_total_def)

section \<open>Removing from a cart\<close>

lemma remove_from_cart_result:
  assumes "ACTIVE_SESSIONS st sid = Some s"
  shows "remove_from_cart st sid iid now =
     (Inr \<lparr>r_cart = filter (\<lambda>l. item_id l \<noteq> iid) (read_cart st (s_cart s)),
           r_total = cart_total (filter (\<lambda>l. item_id l \<noteq> iid) (read_cart st (s_cart s)))\<rparr>,
      snd (remove_from_cart st sid iid now))"
  using assms by (simp add: remove_from_cart_def Let_def read_cart_def filter_map o_def)

lemma remove_from_cart_after:
  assumes "ACTIVE_SESSIONS st sid = Some s"
  shows "\<exists>s'. ACTIVE_SESSIONS (snd (remove_from_cart st sid iid now)) sid = Some s' \<and>
           s_last_active s' = now \<and>
           read_cart (snd (remove_from_cart st sid iid now)) (s_cart s') =
             filter (\<lambda>l. item_id l \<noteq> iid) (read_cart st (s_cart s))"
  using assms by (simp add: remove_from_cart_state read_cart_def filter_map o_def)

text \<open>
  C7. For an existing session, \<^verbatim>\<open>remove_from_cart\<close> never returns an error, and calling
  it twice in a row with the same \<open>item_id\<close> returns the same cart and total both times
  and leaves the session with that same cart and total after the second call as after the
  first. When no line of the cart has the \<open>item_id\<close>, the call returns the cart and total
  the session had before it.
\<close>

theorem remove_from_cart_idempotent:
  assumes "ACTIVE_SESSIONS st sid = Some s"
  shows "\<exists>r st1 st2.
           remove_from_cart st sid iid now1 = (Inr r, st1) \<and>
           remove_from_cart st1 sid iid now2 = (Inr r, st2) \<and>
           get_cart st1 sid = Inr r \<and> get_cart st2 sid = Inr r \<and>
           (iid \<notin> item_id ` set (read_cart st (s_cart s)) \<longrightarrow> get_cart st sid = Inr r)"
proof -
  let ?c = "read_cart st (s_cart s)"
  let ?r = "\<lparr>r_cart = filter (\<lambda>l. item_id l \<noteq> iid) ?c,
             r_total = cart_total (filter (\<lambda>l. item_id l \<noteq> iid) ?c)\<rparr>"
  let ?st1 = "snd (remove_from_cart st sid iid now1)"
  let ?st2 = "snd (remove_from_cart ?st1 sid iid now2)"
  have 1: "remove_from_cart st sid iid now1 = (Inr ?r, ?st1)"
    by (rule remove_from_cart_result [OF assms])
  from remove_from_cart_after [OF assms, of iid now1]
  obtain s1 where s1: "ACTIVE_SESSIONS ?st1 sid = Some s1"
    and c1: "read_cart ?st1 (s_cart s1) = filter (\<lambda>l. item_id l \<noteq> iid) ?c"
    by blast
  have 2: "remove_from_cart ?st1 sid iid now2 = (Inr ?r, ?st2)"
    using remove_from_cart_result [OF s1, of iid now2] by (simp add: c1)
  have 3: "get_cart ?st1 sid = Inr ?r"
    using 1 by (rule remove_from_cart_get_cart)
  have 4: "get_cart ?st2 sid = Inr ?r"
    using 2 by (rule remove_from_cart_get_cart)
  have 5: "iid \<notin> item_id ` set ?c \<longrightarrow> get_cart st sid = Inr ?r"
  proof
    assume "iid \<notin> item_id ` set ?c"
    then have "filter (\<lambda>l. item_id l \<noteq> iid) ?c = ?c"
      by (auto simp: filter_id_conv)
    then show "get_cart st sid = Inr ?r"
      using assms by (simp add: get_cart_def)
  qed
  from 1 2 3 4 5 show ?thesis by blast
qed

theorem remove_from_cart_idempotent_witness:
  "ACTIVE_SESSIONS example_state ''s1'' = Some \<lparr>s_cart = 0, s_created_at = 1, s_last_active = 2\<rparr> \<and>
   ''salad-01'' \<notin> item_id ` set (read_cart example_state 0) \<and>
   (\<exists>r st1 st2.
      remove_from_cart example_state ''s1'' ''salad-01'' 3 = (Inr r, st1) \<and>
      remove_from_cart st1 ''s1'' ''salad-01'' 4 = (Inr r, st2) \<and>
      get_cart st1 ''s1'' = Inr r \<and> get_cart st2 ''s1'' = Inr r \<and>
      get_cart example_state ''s1'' = Inr r)"
proof -
  have a: "''salad-01'' \<notin> item_id ` set (read_cart example_state 0)"
    by (simp add: example_cart)
  from remove_from_cart_idempotent [OF example_session, of "''salad-01''" 3 4] a example_session
  show ?thesis by auto
qed

section \<open>The timestamp of the last activity\<close>

lemma checkout_Inr_session:
  assumes "checkout st sid cinfo pinfo u1 t1 u2 now = (Inr r, st')"
  shows "\<exists>s'. ACTIVE_SESSIONS st' sid = Some s' \<and> s_last_active s' = now"
  using assms by (auto simp: checkout_def Let_def split: option.splits if_splits)

lemma add_to_cart_Inr_session:
  assumes "add_to_cart M st sid iid qty now = (Inr r, st')"
  shows "\<exists>s'. ACTIVE_SESSIONS st' sid = Some s' \<and> s_last_active s' = now"
  using assms by (auto simp: add_to_cart_def Let_def split: option.splits)

lemma add_to_cart_Inl_state:
  assumes "add_to_cart M st sid iid qty now = (Inl e, st')"
  shows "st' = st"
  using assms by (auto simp: add_to_cart_def Let_def split: option.splits)

lemma checkout_Inl_state:
  assumes "checkout st sid cinfo pinfo u1 t1 u2 now = (Inl e, st')"
  shows "st' = st"
  using assms by (auto simp: checkout_def Let_def split: option.splits if_splits)

lemma step_last_active:
  assumes "ACTIVE_SESSIONS st sid = Some s"
  shows "\<exists>s'. ACTIVE_SESSIONS (step M st x) sid = Some s' \<and>
           (s_last_active s' = s_last_active s \<or> s_last_active s' \<in> set (clock_readings x))"
proof (cases x)
  case (CreateCart sid' now)
  then show ?thesis using assms by (simp add: create_cart_state)
next
  case (AddToCart sid' iid qty now)
  show ?thesis
  proof (cases "add_to_cart M st sid' iid qty now")
    case (Pair res st')
    show ?thesis
    proof (cases res)
      case (Inl e)
      with Pair have "st' = st" by (simp add: add_to_cart_Inl_state)
      with Pair AddToCart assms show ?thesis by simp
    next
      case (Inr r)
      with Pair obtain s0 item where s0: "ACTIVE_SESSIONS st sid' = Some s0"
        and item: "find (\<lambda>i. mi_id i = iid) M = Some item"
        by (auto simp: add_to_cart_def Let_def split: option.splits)
      from add_to_cart_session [OF s0 item, of qty now] AddToCart assms s0
      show ?thesis by auto
    qed
  qed
next
  case (RemoveFromCart sid' iid now)
  show ?thesis
  proof (cases "ACTIVE_SESSIONS st sid'")
    case None
    with RemoveFromCart assms show ?thesis by (simp add: remove_from_cart_fail)
  next
    case (Some s0)
    with RemoveFromCart assms show ?thesis by (auto simp: remove_from_cart_state)
  qed
next
  case (GetCart sid')
  with assms show ?thesis by simp
next
  case (Checkout sid' cinfo pinfo u1 t1 u2 t2)
  show ?thesis
  proof (cases "ACTIVE_SESSIONS st sid'")
    case None
    with Checkout assms show ?thesis by (simp add: checkout_fail)
  next
    case (Some s0)
    show ?thesis
    proof (cases "list_heap st (s_cart s0) = []")
      case True
      with Some Checkout assms show ?thesis by (simp add: checkout_fail)
    next
      case False
      with Some Checkout assms show ?thesis by (auto simp: checkout_state)
    qed
  qed
next
  case (GetOrderStatus oid)
  with assms show ?thesis by simp
qed

lemma run_last_active:
  assumes "ACTIVE_SESSIONS st sid = Some s"
    and "sorted (s_last_active s # concat (map clock_readings ops))"
  shows "\<exists>s'. ACTIVE_SESSIONS (run M st ops) sid = Some s' \<and>
           s_last_active s \<le> s_last_active s'"
  using assms
proof (induction ops arbitrary: st s)
  case Nil
  then show ?case by (simp add: run_def)
next
  case (Cons x ops)
  from step_last_active [OF Cons.prems(1), of M x]
  obtain s1 where s1: "ACTIVE_SESSIONS (step M st x) sid = Some s1"
    and d: "s_last_active s1 = s_last_active s \<or> s_last_active s1 \<in> set (clock_readings x)"
    by blast
  from Cons.prems(2) d have le: "s_last_active s \<le> s_last_active s1"
    by auto
  from Cons.prems(2) d have "sorted (s_last_active s1 # concat (map clock_readings ops))"
    by (auto simp: sorted_append)
  from Cons.IH [OF s1 this] obtain s' where
    "ACTIVE_SESSIONS (run M (step M st x) ops) sid = Some s'"
    "s_last_active s1 \<le> s_last_active s'" by blast
  with le show ?case by (auto simp: run_def)
qed

text \<open>
  C8, as amended. For an existing session, every successful \<^verbatim>\<open>add_to_cart\<close>, every
  \<^verbatim>\<open>remove_from_cart\<close> and every successful \<^verbatim>\<open>checkout\<close> sets the session's
  \<open>last_active\<close> to the clock reading of the call. A call that is rejected (unknown
  item, empty cart) returns the state it was given, so \<open>last_active\<close> keeps its value.
  Over every sequence of calls whose clock readings do not decrease and are not earlier
  than the stored \<open>last_active\<close>, the session stays and its \<open>last_active\<close> does not
  decrease.
\<close>

theorem last_active_updates:
  assumes "ACTIVE_SESSIONS st sid = Some s"
  shows "(\<forall>r st'. add_to_cart M st sid iid qty now = (Inr r, st') \<longrightarrow>
            (\<exists>s'. ACTIVE_SESSIONS st' sid = Some s' \<and> s_last_active s' = now)) \<and>
         (\<exists>r st' s'. remove_from_cart st sid iid now = (Inr r, st') \<and>
            ACTIVE_SESSIONS st' sid = Some s' \<and> s_last_active s' = now) \<and>
         (\<forall>r st'. checkout st sid cinfo pinfo u1 t1 u2 now = (Inr r, st') \<longrightarrow>
            (\<exists>s'. ACTIVE_SESSIONS st' sid = Some s' \<and> s_last_active s' = now)) \<and>
         (\<forall>e st'. add_to_cart M st sid iid qty now = (Inl e, st') \<longrightarrow> st' = st) \<and>
         (\<forall>e st'. checkout st sid cinfo pinfo u1 t1 u2 now = (Inl e, st') \<longrightarrow> st' = st) \<and>
         (sorted (s_last_active s # concat (map clock_readings ops)) \<longrightarrow>
            (\<exists>s'. ACTIVE_SESSIONS (run M st ops) sid = Some s' \<and>
               s_last_active s \<le> s_last_active s'))"
proof (intro conjI allI impI)
  show "\<exists>r st' s'. remove_from_cart st sid iid now = (Inr r, st') \<and>
            ACTIVE_SESSIONS st' sid = Some s' \<and> s_last_active s' = now"
    using remove_from_cart_result [OF assms, of iid now] remove_from_cart_after [OF assms, of iid now]
    by blast
qed (use assms in \<open>auto intro: add_to_cart_Inr_session checkout_Inr_session
      dest: add_to_cart_Inl_state checkout_Inl_state run_last_active\<close>)


lemma example_checkout:
  "\<exists>r. checkout example_state ''s1'' None None ''0123456789abcdef'' 4 ''fedcba9876543210'' 5 =
     (Inr r, snd (checkout example_state ''s1'' None None ''0123456789abcdef'' 4 ''fedcba9876543210'' 5))"
  by (simp add: checkout_def example_state_eq Let_def)

lemma example_add_unknown:
  "add_to_cart example_menu example_state ''s1'' ''nonexistent'' 3 5 =
     (Inl (ItemNotFound ''nonexistent''), example_state)"
  by (simp add: add_to_cart_def example_session example_menu_def example_burger_def example_salad_def)

lemma example_sorted:
  "sorted (s_last_active \<lparr>s_cart = 0, s_created_at = 1, s_last_active = 2\<rparr> #
     concat (map clock_readings [AddToCart ''s1'' ''salad-01'' 1 3,
        Checkout ''s1'' None None ''0123456789abcdef'' 4 ''fedcba9876543210'' 5]))"
  by simp

theorem last_active_updates_witness:
  "ACTIVE_SESSIONS example_state ''s1'' = Some \<lparr>s_cart = 0, s_created_at = 1, s_last_active = 2\<rparr> \<and>
   (\<exists>r st' s'. add_to_cart example_menu example_state ''s1'' ''salad-01'' 3 5 = (Inr r, st') \<and>
      ACTIVE_SESSIONS st' ''s1'' = Some s' \<and> s_last_active s' = 5) \<and>
   (\<exists>r st' s'. checkout example_state ''s1'' None None ''0123456789abcdef'' 4 ''fedcba9876543210'' 5
        = (Inr r, st') \<and>
      ACTIVE_SESSIONS st' ''s1'' = Some s' \<and> s_last_active s' = 5) \<and>
   (\<exists>e. add_to_cart example_menu example_state ''s1'' ''nonexistent'' 3 5 = (Inl e, example_state)) \<and>
   sorted (2 # concat (map clock_readings [AddToCart ''s1'' ''salad-01'' 1 3,
        Checkout ''s1'' None None ''0123456789abcdef'' 4 ''fedcba9876543210'' 5])) \<and>
   (\<exists>s'. ACTIVE_SESSIONS (run example_menu example_state [AddToCart ''s1'' ''salad-01'' 1 3,
        Checkout ''s1'' None None ''0123456789abcdef'' 4 ''fedcba9876543210'' 5]) ''s1'' = Some s' \<and>
      2 \<le> s_last_active s')"
proof -
  note t = last_active_updates [OF example_session, where M = example_menu
      and iid = "''salad-01''" and qty = 3 and now = 5 and cinfo = None and pinfo = None
      and ?u1.0 = "''0123456789abcdef''" and ?t1.0 = 4 and ?u2.0 = "''fedcba9876543210''"
      and ops = "[AddToCart ''s1'' ''salad-01'' 1 3,
        Checkout ''s1'' None None ''0123456789abcdef'' 4 ''fedcba9876543210'' 5]"]
  note t' = last_active_updates [OF example_session, where M = example_menu
      and iid = "''nonexistent''" and qty = 3 and now = 5]
  from t example_add have 1:
    "\<exists>r st' s'. add_to_cart example_menu example_state ''s1'' ''salad-01'' 3 5 = (Inr r, st') \<and>
      ACTIVE_SESSIONS st' ''s1'' = Some s' \<and> s_last_active s' = 5"
    by blast
  from t example_checkout have 2:
    "\<exists>r st' s'. checkout example_state ''s1'' None None ''0123456789abcdef'' 4 ''fedcba9876543210'' 5
        = (Inr r, st') \<and>
      ACTIVE_SESSIONS st' ''s1'' = Some s' \<and> s_last_active s' = 5"
    by blast
  from t' example_add_unknown have 3:
    "\<exists>e. add_to_cart example_menu example_state ''s1'' ''nonexistent'' 3 5 = (Inl e, example_state)"
    by blast
  from t example_sorted have 4:
    "\<exists>s'. ACTIVE_SESSIONS (run example_menu example_state [AddToCart ''s1'' ''salad-01'' 1 3,
        Checkout ''s1'' None None ''0123456789abcdef'' 4 ''fedcba9876543210'' 5]) ''s1'' = Some s' \<and>
      2 \<le> s_last_active s'"
    by simp
  from 1 2 3 4 example_session example_sorted show ?thesis by simp
qed

text \<open>
  C8 as stated fails: a checkout attempt at time 9 that is rejected because the cart is
  empty leaves \<open>last_active\<close> at 1, the time the session was created.
\<close>

theorem rejected_checkout_keeps_last_active_counterexample:
  "read_cart (snd (create_cart init_state ''s1'' 1)) 0 = [] \<and>
   fst (checkout (snd (create_cart init_state ''s1'' 1)) ''s1'' None None
          ''0123456789abcdef'' 5 ''fedcba9876543210'' 9) = Inl EmptyCart \<and>
   ACTIVE_SESSIONS (snd (checkout (snd (create_cart init_state ''s1'' 1)) ''s1'' None None
          ''0123456789abcdef'' 5 ''fedcba9876543210'' 9)) ''s1''
     = Some \<lparr>s_cart = 0, s_created_at = 1, s_last_active = 1\<rparr> \<and>
   (1 :: timestamp) \<noteq> 9"
  by (simp add: checkout_def create_cart_def init_state_def read_cart_def)

section \<open>A successful checkout\<close>

lemma checkout_result:
  assumes "ACTIVE_SESSIONS st sid = Some s" "list_heap st (s_cart s) \<noteq> []"
  shows "checkout st sid cinfo pinfo u1 t1 u2 t2 =
     (Inr \<lparr>c_order = order_view (snd (checkout st sid cinfo pinfo u1 t1 u2 t2))
                        (new_order st s cinfo pinfo u1 t1 u2),
           c_success = True, c_message = ''Order placed successfully''\<rparr>,
      snd (checkout st sid cinfo pinfo u1 t1 u2 t2))"
  using assms by (simp add: checkout_def Let_def new_order_def)

lemma new_order_fields [simp]:
  "o_order_id (new_order st s cinfo pinfo u1 t1 u2) = ''ORD-'' @ upper (take 8 u1)"
  "o_total (new_order st s cinfo pinfo u1 t1 u2) = cart_total (read_cart st (s_cart s))"
  "o_status (new_order st s cinfo pinfo u1 t1 u2) = ''confirmed''"
  "p_status (o_payment_info (new_order st s cinfo pinfo u1 t1 u2)) = ''approved''"
  by (simp_all add: new_order_def)

lemma cart_total_Nil [simp]: "cart_total [] = 0"
  by (simp add: cart_total_def)

text \<open>
  C1. In every state the server reaches, for every session whose cart is not empty,
  \<^verbatim>\<open>checkout\<close> succeeds and returns an order whose items and total are the lines and
  the total of the session's cart immediately before the call (what \<^verbatim>\<open>get_cart\<close>
  reports there), with status \<^verbatim>\<open>"confirmed"\<close> and payment status \<^verbatim>\<open>"approved"\<close>;
  the order is stored under its identifier, and immediately after the call the session's
  cart is empty.
\<close>

theorem checkout_creates_order:
  assumes "st = run M init_state pre"
    and "ACTIVE_SESSIONS st sid = Some s"
    and "read_cart st (s_cart s) \<noteq> []"
  shows "\<exists>r st'. checkout st sid cinfo pinfo u1 t1 u2 t2 = (Inr r, st') \<and>
           v_items (c_order r) = read_cart st (s_cart s) \<and>
           v_total (c_order r) = cart_total (read_cart st (s_cart s)) \<and>
           get_cart st sid = Inr \<lparr>r_cart = v_items (c_order r), r_total = v_total (c_order r)\<rparr> \<and>
           v_status (c_order r) = ''confirmed'' \<and>
           p_status (v_payment_info (c_order r)) = ''approved'' \<and>
           get_order_status st' (v_order_id (c_order r)) = Inr (c_order r) \<and>
           get_cart st' sid = Inr \<lparr>r_cart = [], r_total = 0\<rparr>"
proof -
  let ?st' = "snd (checkout st sid cinfo pinfo u1 t1 u2 t2)"
  let ?ord = "new_order st s cinfo pinfo u1 t1 u2"
  let ?r = "\<lparr>c_order = order_view ?st' ?ord, c_success = True,
             c_message = ''Order placed successfully''\<rparr>"
  from assms(1) have "state_ok st" by (simp add: reachable_ok)
  then have a: "alloc_ok st" by (simp add: state_ok_def)
  from assms(3) have ne: "list_heap st (s_cart s) \<noteq> []" by (simp add: read_cart_def)
  note st' = checkout_state [OF assms(2) ne, of cinfo pinfo u1 t1 u2 t2]
  have 1: "checkout st sid cinfo pinfo u1 t1 u2 t2 = (Inr ?r, ?st')"
    by (rule checkout_result [OF assms(2) ne])
  have keep: "read_cart ?st' (s_cart s) = read_cart st (s_cart s)"
    using fresh_sess(3) [OF a assms(2)] by (simp add: st' read_cart_def)
  have 2: "v_items (c_order ?r) = read_cart st (s_cart s)"
    by (simp add: order_view_def keep)
  have 3: "v_total (c_order ?r) = cart_total (read_cart st (s_cart s))"
    by (simp add: order_view_def)
  have 4: "get_cart st sid = Inr \<lparr>r_cart = v_items (c_order ?r), r_total = v_total (c_order ?r)\<rparr>"
    using assms(2) 2 3 by (simp add: get_cart_def)
  have 5: "v_status (c_order ?r) = ''confirmed''"
    "p_status (v_payment_info (c_order ?r)) = ''approved''"
    by (simp_all add: order_view_def)
  have 6: "get_order_status ?st' (v_order_id (c_order ?r)) = Inr (c_order ?r)"
    by (simp add: get_order_status_def order_view_def st')
  have 7: "get_cart ?st' sid = Inr \<lparr>r_cart = [], r_total = 0\<rparr>"
    by (simp add: get_cart_def st' read_cart_def)
  from 1 2 3 4 5 6 7 show ?thesis by blast
qed

theorem checkout_creates_order_witness:
  "example_state = run example_menu init_state [CreateCart ''s1'' 1, AddToCart ''s1'' ''burger-01'' 2 2] \<and>
   ACTIVE_SESSIONS example_state ''s1'' = Some \<lparr>s_cart = 0, s_created_at = 1, s_last_active = 2\<rparr> \<and>
   read_cart example_state 0 \<noteq> [] \<and>
   (\<exists>r st'. checkout example_state ''s1'' None None ''0123456789abcdef'' 4 ''fedcba9876543210'' 5
        = (Inr r, st') \<and>
      v_items (c_order r) =
        [\<lparr>item_id = ''burger-01'', name = ''Burger'', price = 17 / 2, quantity = 2\<rparr>] \<and>
      v_total (c_order r) = 17 \<and>
      v_status (c_order r) = ''confirmed'' \<and>
      p_status (v_payment_info (c_order r)) = ''approved'' \<and>
      get_order_status st' (v_order_id (c_order r)) = Inr (c_order r) \<and>
      get_cart st' ''s1'' = Inr \<lparr>r_cart = [], r_total = 0\<rparr>)"
proof -
  have ne: "read_cart example_state
      (s_cart \<lparr>s_cart = 0, s_created_at = 1, s_last_active = 2\<rparr>) \<noteq> []"
    by (simp add: example_cart)
  have tot: "cart_total (read_cart example_state 0) = 17"
    by (simp add: example_cart cart_total_def)
  from checkout_creates_order [OF example_state_def example_session ne,
      of None None "''0123456789abcdef''" 4 "''fedcba9876543210''" 5]
  obtain r st' where
    "checkout example_state ''s1'' None None ''0123456789abcdef'' 4 ''fedcba9876543210'' 5
        = (Inr r, st')"
    "v_items (c_order r) = read_cart example_state 0"
    "v_total (c_order r) = cart_total (read_cart example_state 0)"
    "v_status (c_order r) = ''confirmed''"
    "p_status (v_payment_info (c_order r)) = ''approved''"
    "get_order_status st' (v_order_id (c_order r)) = Inr (c_order r)"
    "get_cart st' ''s1'' = Inr \<lparr>r_cart = [], r_total = 0\<rparr>"
    by auto
  then show ?thesis
    using example_state_def example_session example_cart tot by auto
qed

section \<open>Adding to a cart: one line per item\<close>

lemma read_cart_item_ids:
  "map item_id (read_cart st c) = map (\<lambda>a. item_id (line_heap st a)) (list_heap st c)"
  by (simp add: read_cart_def)

lemma find_line_iff:
  "(find (\<lambda>a. item_id (line_heap st a) = iid) (list_heap st c) = None) =
     (iid \<notin> item_id ` set (read_cart st c))"
  by (auto simp: find_None_iff read_cart_def)

lemma bump_unique_line:
  assumes d: "distinct (map (\<lambda>a. item_id (lh a)) xs)"
    and f: "find (\<lambda>a. item_id (lh a) = iid) xs = Some a"
  shows "map (lh(a := (lh a)\<lparr>quantity := quantity (lh a) + qty\<rparr>)) xs =
         map (\<lambda>l. if item_id l = iid then l\<lparr>quantity := quantity l + qty\<rparr> else l) (map lh xs)"
proof -
  from f have a: "a \<in> set xs" "item_id (lh a) = iid"
    by (auto simp: find_Some_iff)
  from d have inj: "inj_on (\<lambda>a. item_id (lh a)) (set xs)"
    by (simp add: distinct_map)
  have "\<And>x. x \<in> set xs \<Longrightarrow> (item_id (lh x) = iid) = (x = a)"
    using a inj by (auto dest: inj_onD)
  then show ?thesis using a by (auto simp: fun_upd_apply)
qed

lemma add_to_cart_existing_cart:
  assumes ok: "state_ok st" and s: "ACTIVE_SESSIONS st sid = Some s"
    and item: "find (\<lambda>i. mi_id i = iid) M = Some item"
    and "in": "iid \<in> item_id ` set (read_cart st (s_cart s))"
  shows "read_cart (snd (add_to_cart M st sid iid qty now)) (s_cart s) =
     map (\<lambda>l. if item_id l = iid then l\<lparr>quantity := quantity l + qty\<rparr> else l)
       (read_cart st (s_cart s))"
proof -
  from "in" obtain a where
    f: "find (\<lambda>a. item_id (line_heap st a) = iid) (list_heap st (s_cart s)) = Some a"
    using find_line_iff [of st iid "s_cart s"] by auto
  from ok have "unique_lines st" by (simp add: state_ok_def)
  from unique_linesD [OF this s] bump_unique_line [OF _ f, of qty]
  show ?thesis
    by (simp add: add_to_cart_existing [OF s item f] read_cart_def)
qed

lemma add_to_cart_new_cart:
  assumes ok: "state_ok st" and s: "ACTIVE_SESSIONS st sid = Some s"
    and item: "find (\<lambda>i. mi_id i = iid) M = Some item"
    and out: "iid \<notin> item_id ` set (read_cart st (s_cart s))"
  shows "read_cart (snd (add_to_cart M st sid iid qty now)) (s_cart s) =
     read_cart st (s_cart s) @
       [\<lparr>item_id = iid, name = mi_name item, price = mi_price item, quantity = qty\<rparr>]"
proof -
  from out have
    f: "find (\<lambda>a. item_id (line_heap st a) = iid) (list_heap st (s_cart s)) = None"
    by (simp add: find_line_iff)
  from ok have a: "alloc_ok st" by (simp add: state_ok_def)
  have "map ((line_heap st)(next_addr st :=
          \<lparr>item_id = iid, name = mi_name item, price = mi_price item, quantity = qty\<rparr>))
        (list_heap st (s_cart s)) = map (line_heap st) (list_heap st (s_cart s))"
    using fresh_sess(1) [OF a s] by (auto simp: fun_upd_apply)
  then show ?thesis
    by (simp add: add_to_cart_new [OF s item f] read_cart_def)
qed

text \<open>
  C3. In every state the server reaches, the lines of a session's cart have pairwise
  different \<open>item_id\<close>s. For every item on the menu \<^verbatim>\<open>add_to_cart\<close> succeeds, and the
  cart it returns is the session's cart after the call, again with at most one line per
  \<open>item_id\<close>: when a line for the item exists, that line's quantity has grown by the
  given amount and nothing else has changed (its name and price are the ones captured
  when it was created; the menu is not consulted for them); when no line exists, exactly
  one new line with the menu's name and price and the given quantity is appended. In
  particular, adding an item that has no line with quantity 2 and then with quantity 3
  leaves exactly one line for it, of quantity 5.
\<close>

theorem add_to_cart_merges:
  assumes "st = run M init_state pre"
    and "ACTIVE_SESSIONS st sid = Some s"
    and "find (\<lambda>i. mi_id i = iid) M = Some item"
  shows "distinct (map item_id (read_cart st (s_cart s))) \<and>
    (\<exists>r st'. add_to_cart M st sid iid qty now = (Inr r, st') \<and>
       get_cart st' sid = Inr r \<and>
       distinct (map item_id (r_cart r)) \<and>
       (iid \<in> item_id ` set (read_cart st (s_cart s)) \<longrightarrow>
          r_cart r = map (\<lambda>l. if item_id l = iid then l\<lparr>quantity := quantity l + qty\<rparr> else l)
                       (read_cart st (s_cart s))) \<and>
       (iid \<notin> item_id ` set (read_cart st (s_cart s)) \<longrightarrow>
          r_cart r = read_cart st (s_cart s) @
            [\<lparr>item_id = iid, name = mi_name item, price = mi_price item, quantity = qty\<rparr>])) \<and>
    (iid \<notin> item_id ` set (read_cart st (s_cart s)) \<longrightarrow>
       (\<exists>r1 st1 r2 st2.
          add_to_cart M st sid iid 2 now = (Inr r1, st1) \<and>
          add_to_cart M st1 sid iid 3 now' = (Inr r2, st2) \<and>
          r_cart r2 = read_cart st (s_cart s) @
            [\<lparr>item_id = iid, name = mi_name item, price = mi_price item, quantity = 5\<rparr>] \<and>
          filter (\<lambda>l. item_id l = iid) (r_cart r2) =
            [\<lparr>item_id = iid, name = mi_name item, price = mi_price item, quantity = 5\<rparr>]))"
proof (intro conjI impI)
  from assms(1) have ok: "state_ok st" by (simp add: reachable_ok)
  then have u: "unique_lines st" by (simp add: state_ok_def)
  note s = assms(2) and item = assms(3)
  let ?c = "read_cart st (s_cart s)"
  show d: "distinct (map item_id ?c)"
    using unique_linesD [OF u s] by (simp add: read_cart_item_ids)
  let ?st' = "snd (add_to_cart M st sid iid qty now)"
  let ?r = "\<lparr>r_cart = read_cart ?st' (s_cart s), r_total = cart_total (read_cart ?st' (s_cart s))\<rparr>"
  have 1: "add_to_cart M st sid iid qty now = (Inr ?r, ?st')"
    by (rule add_to_cart_Inr [OF s item])
  have 2: "get_cart ?st' sid = Inr ?r"
    using 1 by (rule add_to_cart_get_cart)
  have ok': "state_ok ?st'" using ok by (rule add_to_cart_ok)
  have s': "ACTIVE_SESSIONS ?st' sid = Some (s\<lparr>s_last_active := now\<rparr>)"
    by (simp add: add_to_cart_session [OF s item])
  have 3: "distinct (map item_id (r_cart ?r))"
    using unique_linesD [OF _ s'] ok' by (simp add: read_cart_item_ids state_ok_def)
  have 4: "iid \<in> item_id ` set ?c \<longrightarrow>
          r_cart ?r = map (\<lambda>l. if item_id l = iid then l\<lparr>quantity := quantity l + qty\<rparr> else l) ?c"
    using add_to_cart_existing_cart [OF ok s item, of qty now] by simp
  have 5: "iid \<notin> item_id ` set ?c \<longrightarrow>
          r_cart ?r = ?c @ [\<lparr>item_id = iid, name = mi_name item, price = mi_price item, quantity = qty\<rparr>]"
    using add_to_cart_new_cart [OF ok s item, of qty now] by simp
  from 1 2 3 4 5
  show "\<exists>r st'. add_to_cart M st sid iid qty now = (Inr r, st') \<and>
       get_cart st' sid = Inr r \<and>
       distinct (map item_id (r_cart r)) \<and>
       (iid \<in> item_id ` set ?c \<longrightarrow>
          r_cart r = map (\<lambda>l. if item_id l = iid then l\<lparr>quantity := quantity l + qty\<rparr> else l) ?c) \<and>
       (iid \<notin> item_id ` set ?c \<longrightarrow>
          r_cart r = ?c @
            [\<lparr>item_id = iid, name = mi_name item, price = mi_price item, quantity = qty\<rparr>])"
    by blast
  assume out: "iid \<notin> item_id ` set ?c"
  let ?st1 = "snd (add_to_cart M st sid iid 2 now)"
  let ?st2 = "snd (add_to_cart M ?st1 sid iid 3 now')"
  let ?s1 = "s\<lparr>s_last_active := now\<rparr>"
  have ok1: "state_ok ?st1" using ok by (rule add_to_cart_ok)
  have s1: "ACTIVE_SESSIONS ?st1 sid = Some ?s1"
    by (simp add: add_to_cart_session [OF s item])
  have c1: "read_cart ?st1 (s_cart s) =
      ?c @ [\<lparr>item_id = iid, name = mi_name item, price = mi_price item, quantity = 2\<rparr>]"
    by (rule add_to_cart_new_cart [OF ok s item out])
  then have in1: "iid \<in> item_id ` set (read_cart ?st1 (s_cart ?s1))" by simp
  have c2: "read_cart ?st2 (s_cart s) =
      ?c @ [\<lparr>item_id = iid, name = mi_name item, price = mi_price item, quantity = 5\<rparr>]"
    using add_to_cart_existing_cart [OF ok1 s1 item in1, of 3 now'] out
    by (simp add: c1) (rule map_idI, auto)
  have a1: "add_to_cart M st sid iid 2 now =
      (Inr \<lparr>r_cart = read_cart ?st1 (s_cart s), r_total = cart_total (read_cart ?st1 (s_cart s))\<rparr>, ?st1)"
    by (rule add_to_cart_Inr [OF s item])
  have a2: "add_to_cart M ?st1 sid iid 3 now' =
      (Inr \<lparr>r_cart = read_cart ?st2 (s_cart s), r_total = cart_total (read_cart ?st2 (s_cart s))\<rparr>, ?st2)"
    using add_to_cart_Inr [OF s1 item, of 3 now'] by simp
  have f: "filter (\<lambda>l. item_id l = iid) (read_cart ?st2 (s_cart s)) =
      [\<lparr>item_id = iid, name = mi_name item, price = mi_price item, quantity = 5\<rparr>]"
    using out by (auto simp: c2 filter_empty_conv)
  from a1 a2 c2 f
  show "\<exists>r1 st1 r2 st2.
          add_to_cart M st sid iid 2 now = (Inr r1, st1) \<and>
          add_to_cart M st1 sid iid 3 now' = (Inr r2, st2) \<and>
          r_cart r2 = ?c @
            [\<lparr>item_id = iid, name = mi_name item, price = mi_price item, quantity = 5\<rparr>] \<and>
          filter (\<lambda>l. item_id l = iid) (r_cart r2) =
            [\<lparr>item_id = iid, name = mi_name item, price = mi_price item, quantity = 5\<rparr>]"
    by (intro exI [of _ "\<lparr>r_cart = read_cart ?st1 (s_cart s), r_total = cart_total (read_cart ?st1 (s_cart s))\<rparr>"]
        exI [of _ ?st1]
        exI [of _ "\<lparr>r_cart = read_cart ?st2 (s_cart s), r_total = cart_total (read_cart ?st2 (s_cart s))\<rparr>"]
        exI [of _ ?st2]) simp
qed


lemma example_find:
  "find (\<lambda>i. mi_id i = ''burger-01'') example_menu = Some example_burger"
  "find (\<lambda>i. mi_id i = ''salad-01'') example_menu = Some example_salad"
  by (simp_all add: example_menu_def example_burger_def example_salad_def)

theorem add_to_cart_merges_witness:
  "example_state = run example_menu init_state
      [CreateCart ''s1'' 1, AddToCart ''s1'' ''burger-01'' 2 2] \<and>
   ACTIVE_SESSIONS example_state ''s1'' = Some \<lparr>s_cart = 0, s_created_at = 1, s_last_active = 2\<rparr> \<and>
   find (\<lambda>i. mi_id i = ''burger-01'') example_menu = Some example_burger \<and>
   find (\<lambda>i. mi_id i = ''salad-01'') example_menu = Some example_salad \<and>
   ''burger-01'' \<in> item_id ` set (read_cart example_state 0) \<and>
   ''salad-01'' \<notin> item_id ` set (read_cart example_state 0) \<and>
   distinct (map item_id (read_cart example_state 0)) \<and>
   (\<exists>r st'. add_to_cart example_menu example_state ''s1'' ''burger-01'' 3 5 = (Inr r, st') \<and>
      r_cart r = [\<lparr>item_id = ''burger-01'', name = ''Burger'', price = 17 / 2, quantity = 5\<rparr>]) \<and>
   (\<exists>r st'. add_to_cart example_menu example_state ''s1'' ''salad-01'' 3 5 = (Inr r, st') \<and>
      r_cart r = [\<lparr>item_id = ''burger-01'', name = ''Burger'', price = 17 / 2, quantity = 2\<rparr>,
                  \<lparr>item_id = ''salad-01'', name = ''Salad'', price = 6, quantity = 3\<rparr>]) \<and>
   (\<exists>r1 st1 r2 st2.
      add_to_cart example_menu example_state ''s1'' ''salad-01'' 2 5 = (Inr r1, st1) \<and>
      add_to_cart example_menu st1 ''s1'' ''salad-01'' 3 6 = (Inr r2, st2) \<and>
      r_cart r2 = [\<lparr>item_id = ''burger-01'', name = ''Burger'', price = 17 / 2, quantity = 2\<rparr>,
                   \<lparr>item_id = ''salad-01'', name = ''Salad'', price = 6, quantity = 5\<rparr>])"
proof -
  have i: "''burger-01'' \<in> item_id ` set (read_cart example_state 0)"
    and o: "''salad-01'' \<notin> item_id ` set (read_cart example_state 0)"
    by (simp_all add: example_cart)
  note b = add_to_cart_merges [OF example_state_def example_session example_find(1),
      where qty = 3 and now = 5]
  note c = add_to_cart_merges [OF example_state_def example_session example_find(2),
      where qty = 3 and now = 5 and now' = 6]
  from b have 0: "distinct (map item_id (read_cart example_state 0))" by simp
  from b i have 1:
    "\<exists>r st'. add_to_cart example_menu example_state ''s1'' ''burger-01'' 3 5 = (Inr r, st') \<and>
      r_cart r = [\<lparr>item_id = ''burger-01'', name = ''Burger'', price = 17 / 2, quantity = 5\<rparr>]"
    by (auto simp: example_cart)
  from c o have 2:
    "\<exists>r st'. add_to_cart example_menu example_state ''s1'' ''salad-01'' 3 5 = (Inr r, st') \<and>
      r_cart r = [\<lparr>item_id = ''burger-01'', name = ''Burger'', price = 17 / 2, quantity = 2\<rparr>,
                  \<lparr>item_id = ''salad-01'', name = ''Salad'', price = 6, quantity = 3\<rparr>]"
    by (auto simp: example_cart example_salad_def)
  from c o have 3:
    "\<exists>r1 st1 r2 st2.
      add_to_cart example_menu example_state ''s1'' ''salad-01'' 2 5 = (Inr r1, st1) \<and>
      add_to_cart example_menu st1 ''s1'' ''salad-01'' 3 6 = (Inr r2, st2) \<and>
      r_cart r2 = [\<lparr>item_id = ''burger-01'', name = ''Burger'', price = 17 / 2, quantity = 2\<rparr>,
                   \<lparr>item_id = ''salad-01'', name = ''Salad'', price = 6, quantity = 5\<rparr>]"
    by (auto simp: example_cart example_salad_def)
  from 0 1 2 3 i o example_state_def example_session example_find show ?thesis
    by blast
qed

section \<open>Orders do not change\<close>

text \<open>
  A call changes neither the list object of an order nor any of its line objects: the
  objects a call writes to belong to a session, or are fresh.
\<close>

lemma read_cart_cong:
  assumes "list_heap st' c = list_heap st c"
    and "\<And>a. a \<in> set (list_heap st c) \<Longrightarrow> line_heap st' a = line_heap st a"
  shows "read_cart st' c = read_cart st c"
  using assms by (simp add: read_cart_def)

lemma step_keeps_order:
  assumes ok: "state_ok st" and ord: "ORDERS st oid = Some ord"
    and other: "generated_order_id x \<noteq> Some oid"
  shows "ORDERS (step M st x) oid = Some ord \<and>
         read_cart (step M st x) (o_items ord) = read_cart st (o_items ord)"
proof -
  from ok have a: "alloc_ok st" and oa: "orders_apart st" by (simp_all add: state_ok_def)
  note fresh = fresh_ord [OF a ord]
  show ?thesis
  proof (cases x)
    case (CreateCart sid now)
    then show ?thesis using ord fresh
      by (simp add: create_cart_state read_cart_def)
  next
    case (AddToCart sid iid qty now)
    show ?thesis
    proof (cases "ACTIVE_SESSIONS st sid")
      case None
      with AddToCart ord show ?thesis by (simp add: add_to_cart_fail)
    next
      case (Some s)
      note s = this
      show ?thesis
      proof (cases "find (\<lambda>i. mi_id i = iid) M")
        case None
        with AddToCart ord s show ?thesis by (simp add: add_to_cart_fail)
      next
        case (Some item)
        note item = this
        show ?thesis
        proof (cases "find (\<lambda>a. item_id (line_heap st a) = iid) (list_heap st (s_cart s))")
          case None
          have "s_cart s \<noteq> o_items ord" by (rule orders_apartD(1) [OF oa s ord])
          with AddToCart ord fresh show ?thesis
            by (auto simp: add_to_cart_new [OF s item None] intro!: read_cart_cong)
        next
          case (Some b)
          then have "b \<in> set (list_heap st (s_cart s))" by (auto simp: find_Some_iff)
          then have "b \<notin> set (list_heap st (o_items ord))"
            by (rule orders_apartD(2) [OF oa s ord])
          with AddToCart ord show ?thesis
            by (auto simp: add_to_cart_existing [OF s item Some] intro!: read_cart_cong)
        qed
      qed
    qed
  next
    case (RemoveFromCart sid iid now)
    show ?thesis
    proof (cases "ACTIVE_SESSIONS st sid")
      case None
      with RemoveFromCart ord show ?thesis by (simp add: remove_from_cart_fail)
    next
      case (Some s)
      with RemoveFromCart ord fresh show ?thesis
        by (simp add: remove_from_cart_state read_cart_def)
    qed
  next
    case (GetCart sid)
    with ord show ?thesis by simp
  next
    case (Checkout sid cinfo pinfo u1 t1 u2 t2)
    with other have ne: "''ORD-'' @ upper (take 8 u1) \<noteq> oid" by simp
    show ?thesis
    proof (cases "ACTIVE_SESSIONS st sid")
      case None
      with Checkout ord show ?thesis by (simp add: checkout_fail)
    next
      case (Some s)
      show ?thesis
      proof (cases "list_heap st (s_cart s) = []")
        case True
        with Some Checkout ord show ?thesis by (simp add: checkout_fail)
      next
        case False
        with Some Checkout ord fresh ne show ?thesis
          by (simp add: checkout_state read_cart_def)
      qed
    qed
  next
    case (GetOrderStatus oid')
    with ord show ?thesis by simp
  qed
qed

lemma run_keeps_order:
  assumes "state_ok st" and "ORDERS st oid = Some ord"
    and "\<forall>x \<in> set ops. generated_order_id x \<noteq> Some oid"
  shows "ORDERS (run M st ops) oid = Some ord \<and>
         read_cart (run M st ops) (o_items ord) = read_cart st (o_items ord)"
  using assms
proof (induction ops arbitrary: st)
  case Nil
  then show ?case by (simp add: run_def)
next
  case (Cons x ops)
  from Cons.prems have x: "generated_order_id x \<noteq> Some oid"
    and rest: "\<forall>y \<in> set ops. generated_order_id y \<noteq> Some oid" by simp_all
  from step_keeps_order [OF Cons.prems(1,2) x, of M]
  have 1: "ORDERS (step M st x) oid = Some ord"
    and 2: "read_cart (step M st x) (o_items ord) = read_cart st (o_items ord)" by simp_all
  have "state_ok (step M st x)" using Cons.prems(1) by (rule step_ok)
  from Cons.IH [OF this 1 rest] 2 show ?case by (simp add: run_def)
qed

lemma checkout_Inr_stored:
  assumes "checkout st sid cinfo pinfo u1 t1 u2 t2 = (Inr r, st')"
  shows "\<exists>ord. ORDERS st' (v_order_id (c_order r)) = Some ord \<and> order_view st' ord = c_order r"
  using assms
  by (auto simp: checkout_def Let_def order_view_def split: option.splits if_splits)

text \<open>
  C6, as amended. In every state the server reaches, once a checkout has created an
  order, \<^verbatim>\<open>get_order_status\<close> on its identifier returns that same order, with the same
  items and the same total, after every later sequence of calls (\<^verbatim>\<open>create_cart\<close>,
  \<^verbatim>\<open>add_to_cart\<close>, \<^verbatim>\<open>remove_from_cart\<close>, \<^verbatim>\<open>checkout\<close>, on the originating session
  or any other) in which no checkout generates the identifier of this order again.
\<close>

theorem order_immutable:
  assumes "st = run M init_state pre"
    and "checkout st sid cinfo pinfo u1 t1 u2 t2 = (Inr r, st1)"
    and "\<forall>x \<in> set ops. generated_order_id x \<noteq> Some (v_order_id (c_order r))"
  shows "get_order_status (run M st1 ops) (v_order_id (c_order r)) = Inr (c_order r)"
proof -
  from assms(1) have "state_ok st" by (simp add: reachable_ok)
  then have "state_ok (snd (checkout st sid cinfo pinfo u1 t1 u2 t2))" by (rule checkout_ok)
  with assms(2) have ok1: "state_ok st1" by simp
  from checkout_Inr_stored [OF assms(2)] obtain ord where
    ord: "ORDERS st1 (v_order_id (c_order r)) = Some ord" and v: "order_view st1 ord = c_order r"
    by blast
  from run_keeps_order [OF ok1 ord assms(3), of M]
  have "ORDERS (run M st1 ops) (v_order_id (c_order r)) = Some ord"
    and "read_cart (run M st1 ops) (o_items ord) = read_cart st1 (o_items ord)" by simp_all
  then have "get_order_status (run M st1 ops) (v_order_id (c_order r)) = Inr (order_view st1 ord)"
    by (simp add: get_order_status_def order_view_def)
  with v show ?thesis by simp
qed


lemma example_order_ids:
  "upper ''01234567'' = ''01234567''"
  "upper ''89abcdef'' = ''89ABCDEF''"
  by code_simp+

lemma example_checkout_order:
  "\<exists>r. checkout example_state ''s1'' None None ''0123456789abcdef'' 4 ''fedcba9876543210'' 5 =
       (Inr r, snd (checkout example_state ''s1'' None None
                      ''0123456789abcdef'' 4 ''fedcba9876543210'' 5)) \<and>
     v_order_id (c_order r) = ''ORD-01234567'' \<and>
     v_items (c_order r) =
       [\<lparr>item_id = ''burger-01'', name = ''Burger'', price = 17 / 2, quantity = 2\<rparr>] \<and>
     v_total (c_order r) = 17"
  by (simp add: checkout_def example_state_eq Let_def order_view_def read_cart_def
      cart_total_def example_order_ids)

theorem order_immutable_witness:
  "example_state = run example_menu init_state
      [CreateCart ''s1'' 1, AddToCart ''s1'' ''burger-01'' 2 2] \<and>
   (\<exists>r st1.
      checkout example_state ''s1'' None None ''0123456789abcdef'' 4 ''fedcba9876543210'' 5
        = (Inr r, st1) \<and>
      v_order_id (c_order r) = ''ORD-01234567'' \<and>
      v_items (c_order r) =
        [\<lparr>item_id = ''burger-01'', name = ''Burger'', price = 17 / 2, quantity = 2\<rparr>] \<and>
      v_total (c_order r) = 17 \<and>
      (\<forall>x \<in> set [AddToCart ''s1'' ''burger-01'' 1 6, AddToCart ''s1'' ''burger-01'' 4 7,
                   RemoveFromCart ''s1'' ''burger-01'' 8, AddToCart ''s1'' ''salad-01'' 1 9,
                   Checkout ''s1'' None None ''89abcdef01234567'' 10 ''0011223344556677'' 11].
         generated_order_id x \<noteq> Some (v_order_id (c_order r))) \<and>
      get_order_status
        (run example_menu st1
           [AddToCart ''s1'' ''burger-01'' 1 6, AddToCart ''s1'' ''burger-01'' 4 7,
            RemoveFromCart ''s1'' ''burger-01'' 8, AddToCart ''s1'' ''salad-01'' 1 9,
            Checkout ''s1'' None None ''89abcdef01234567'' 10 ''0011223344556677'' 11])
        ''ORD-01234567'' = Inr (c_order r))"
proof -
  let ?ops = "[AddToCart ''s1'' ''burger-01'' 1 6, AddToCart ''s1'' ''burger-01'' 4 7,
               RemoveFromCart ''s1'' ''burger-01'' 8, AddToCart ''s1'' ''salad-01'' 1 9,
               Checkout ''s1'' None None ''89abcdef01234567'' 10 ''0011223344556677'' 11]"
  let ?st1 = "snd (checkout example_state ''s1'' None None
                     ''0123456789abcdef'' 4 ''fedcba9876543210'' 5)"
  from example_checkout_order obtain r where
    c: "checkout example_state ''s1'' None None ''0123456789abcdef'' 4 ''fedcba9876543210'' 5
          = (Inr r, ?st1)"
    and i: "v_order_id (c_order r) = ''ORD-01234567''"
    and v: "v_items (c_order r) =
        [\<lparr>item_id = ''burger-01'', name = ''Burger'', price = 17 / 2, quantity = 2\<rparr>]"
      "v_total (c_order r) = 17"
    by blast
  have h: "\<forall>x \<in> set ?ops. generated_order_id x \<noteq> Some (v_order_id (c_order r))"
    by (simp add: i example_order_ids)
  from order_immutable [OF example_state_def c h]
  have "get_order_status (run example_menu ?st1 ?ops) ''ORD-01234567'' = Inr (c_order r)"
    by (simp add: i)
  with c i v h example_state_def show ?thesis by blast
qed

lemma example_txn_ids:
  "upper ''fedcba9876'' = ''FEDCBA9876''"
  "upper ''0011223344'' = ''0011223344''"
  by code_simp+

text \<open>
  C6 as stated fails. The identifier of an order is \<^verbatim>\<open>ORD-\<close> followed by the first
  eight hexadecimal digits of a \<^verbatim>\<open>uuid4()\<close>, and \<^verbatim>\<open>checkout\<close> assigns
  \<^verbatim>\<open>ORDERS[order_id]\<close> without looking whether the key is in use. After the order
  \<^verbatim>\<open>ORD-01234567\<close> (two burgers, total 17) has been created, the same session adds a
  salad and checks out; this checkout draws the same eight digits, and
  \<^verbatim>\<open>get_order_status\<close> on \<^verbatim>\<open>ORD-01234567\<close> then returns one salad and the total 6.
\<close>

theorem order_id_collision_counterexample:
  "fst (checkout example_state ''s1'' None None ''0123456789abcdef'' 4 ''fedcba9876543210'' 5) =
     Inr \<lparr>c_order =
            \<lparr>v_order_id = ''ORD-01234567'',
             v_items = [\<lparr>item_id = ''burger-01'', name = ''Burger'', price = 17 / 2, quantity = 2\<rparr>],
             v_total = 17, v_status = ''confirmed'', v_created_at = 4,
             v_customer_info = Map.empty,
             v_payment_info = \<lparr>p_method = JStr ''credit_card'', p_status = ''approved'',
                                p_transaction_id = ''TXN-FEDCBA9876''\<rparr>\<rparr>,
          c_success = True, c_message = ''Order placed successfully''\<rparr> \<and>
   get_order_status
     (run example_menu
        (snd (checkout example_state ''s1'' None None ''0123456789abcdef'' 4 ''fedcba9876543210'' 5))
        [AddToCart ''s1'' ''salad-01'' 1 6,
         Checkout ''s1'' None None ''01234567ffffffff'' 7 ''0011223344556677'' 8])
     ''ORD-01234567'' =
     Inr \<lparr>v_order_id = ''ORD-01234567'',
          v_items = [\<lparr>item_id = ''salad-01'', name = ''Salad'', price = 6, quantity = 1\<rparr>],
          v_total = 6, v_status = ''confirmed'', v_created_at = 7,
          v_customer_info = Map.empty,
          v_payment_info = \<lparr>p_method = JStr ''credit_card'', p_status = ''approved'',
                             p_transaction_id = ''TXN-0011223344''\<rparr>\<rparr>"
  by (simp add: run_def checkout_def add_to_cart_def get_order_status_def order_view_def
      read_cart_def cart_total_def example_state_eq example_menu_def example_burger_def
      example_salad_def example_order_ids example_txn_ids Let_def)

end
